theory Spec2Isabelle
  imports Main
begin

section \<open>Values at the HTTP boundary\<close>

text \<open>
  A field of a JSON request body, as the controllers see it (\<open>req.body\<close> is untyped).
  \<open>JUndefined\<close> is an absent field and \<open>JObject\<close> stands for any object or array.
  Numbers are kept as integers: a fractional number behaves like any integer other than
  0 and 1 in every test the controllers make.
\<close>

datatype json = JUndefined | JNull | JBool bool | JNum int | JStr string | JObject

text \<open>The role carried by the verified token (\<open>'user' | 'admin'\<close>).\<close>

datatype role = User | Admin

record auth_user =
  userId :: nat
  email :: string
  role :: role

text \<open>
  What \<open>res.status(code).json(formatResponse(success, data, message))\<close> sends: the status
  code, the data (\<open>None\<close> for \<open>null\<close>) and the message.
\<close>

datatype 'a response = Response (res_status: nat) (res_data: "'a option") (res_message: string)

section \<open>Errors thrown by the services and the store\<close>

datatype error =
    Required_fields
  | Message_content_required
  | Ticket_not_found
  | User_not_found
  | File_size_exceeds nat
  | File_type_not_allowed
  | Sqlite_unique
  | Sqlite_check
  | Sqlite_foreign_key
  | Io_error
  | Registration_required
  | Invalid_email_format
  | Password_too_short
  | User_already_exists
  | Type_error

text \<open>The character of a decimal digit \<open>d < 10\<close>.\<close>

definition digit_char :: "nat \<Rightarrow> char" where
  "digit_char d = ''0123456789'' ! d"

text \<open>\<open>Number.prototype.toString()\<close> on a non-negative integer: its decimal digits.\<close>

fun toString :: "nat \<Rightarrow> string" where
  "toString n = (if n < 10 then [digit_char n] else toString (n div 10) @ [digit_char (n mod 10)])"

declare toString.simps [simp del]

text \<open>
  The \<open>message\<close> of each error. The size limit is printed in whole megabytes (the source
  prints \<open>MAX_FILE_SIZE / 1024 / 1024\<close>, a fraction when the limit is not a multiple of
  1 MiB); the three store errors carry the texts of SQLite's constraint failures,
  \<open>Io_error\<close> is what \<open>fs.unlinkSync\<close> throws and \<open>Type_error\<close> what a property read
  on \<open>undefined\<close> throws.
\<close>

fun error_message :: "error \<Rightarrow> string" where
  "error_message Required_fields = ''Title, description, and category are required''"
| "error_message Message_content_required = ''Message content is required''"
| "error_message Ticket_not_found = ''Ticket not found''"
| "error_message User_not_found = ''User not found''"
| "error_message (File_size_exceeds lim) =
     ''File size exceeds maximum limit of '' @ toString (lim div 1024 div 1024) @ ''MB''"
| "error_message File_type_not_allowed = ''File type not allowed''"
| "error_message Sqlite_unique = ''UNIQUE constraint failed''"
| "error_message Sqlite_check = ''CHECK constraint failed''"
| "error_message Sqlite_foreign_key = ''FOREIGN KEY constraint failed''"
| "error_message Io_error = ''EPERM: operation not permitted, unlink''"
| "error_message Registration_required = ''Name, email, and password are required''"
| "error_message Invalid_email_format = ''Invalid email format''"
| "error_message Password_too_short = ''Password must be at least 6 characters long''"
| "error_message User_already_exists = ''User with this email already exists''"
| "error_message Type_error = ''Cannot read properties of undefined''"

fun startsWith :: "string \<Rightarrow> string \<Rightarrow> bool" where
  "startsWith s [] = True"
| "startsWith [] (p # ps) = False"
| "startsWith (c # cs) (p # ps) = (c = p \<and> startsWith cs ps)"

text \<open>\<open>String.prototype.includes\<close>: the second string occurs somewhere in the first.\<close>

fun str_includes :: "string \<Rightarrow> string \<Rightarrow> bool" where
  "str_includes [] sub = (sub = [])"
| "str_includes (c # cs) sub = (startsWith (c # cs) sub \<or> str_includes cs sub)"

text \<open>The error-handling middleware: the status code is chosen from the error's message.\<close>

definition errorHandler :: "error \<Rightarrow> 'a response" where
  "errorHandler err =
     (let m = error_message err in
      if str_includes m ''required'' \<or> str_includes m ''Invalid'' then Response 400 None m
      else if str_includes m ''not found'' then Response 404 None m
      else if str_includes m ''already exists'' then Response 409 None m
      else Response 500 None ''Internal server error'')"

section \<open>Readings of the environment\<close>

text \<open>
  What one request reads from the clock and the random sources: \<open>CURRENT_TIMESTAMP\<close>,
  \<open>Date.now()\<close>, \<open>new Date().getFullYear()\<close>, \<open>Math.floor(Math.random() * 10000)\<close> and
  \<open>crypto.randomBytes(8).toString('hex')\<close>.
\<close>

record env =
  now :: nat
  date_now :: nat
  full_year :: nat
  random_num :: nat
  random_hex :: string

section \<open>The store\<close>

text \<open>
  One record per table row, with the columns of the schema. SQLite has no boolean:
  \<open>is_active\<close> and \<open>is_internal\<close> are integer columns. Timestamps are seconds.
\<close>

record user_row =
  u_id :: nat
  u_name :: string
  u_email :: string
  u_password_hash :: string
  u_role :: string
  u_is_active :: int
  u_created_at :: nat
  u_updated_at :: nat

record ticket =
  t_id :: nat
  ticket_number :: string
  user_id :: nat
  title :: string
  description :: string
  category :: string
  priority :: string
  status :: string
  assigned_to :: "nat option"
  created_at :: nat
  updated_at :: nat

record message_row =
  tm_id :: nat
  tm_ticket_id :: nat
  tm_user_id :: nat
  tm_message :: string
  tm_is_internal :: int
  tm_created_at :: nat

record attachment =
  a_id :: nat
  a_ticket_id :: nat
  original_filename :: string
  stored_filename :: string
  file_path :: string
  file_size :: nat
  mime_type :: string
  uploaded_by :: nat
  uploaded_at :: nat

text \<open>
  The tables hold their rows in insertion order. Each \<open>seq_\<close> field is the table's entry
  in \<open>sqlite_sequence\<close>: the largest row id the table has ever used.
\<close>

record database =
  users :: "user_row list"
  tickets :: "ticket list"
  ticket_messages :: "message_row list"
  attachments :: "attachment list"
  seq_users :: nat
  seq_tickets :: nat
  seq_ticket_messages :: nat
  seq_attachments :: nat

text \<open>
  \<open>INTEGER PRIMARY KEY AUTOINCREMENT\<close>: the new row id is one more than the largest id
  the table has ever held.
\<close>

definition next_rowid :: "nat \<Rightarrow> nat list \<Rightarrow> nat" where
  "next_rowid seq ids = Suc (fold max ids seq)"

text \<open>\<open>stmt.get(...)\<close>: the first row of a result, or \<open>undefined\<close>.\<close>

fun first_row :: "'a list \<Rightarrow> 'a option" where
  "first_row [] = None"
| "first_row (x # xs) = Some x"

text \<open>
  \<open>ORDER BY column DESC\<close> on a timestamp column: the rows by falling timestamp, rows with
  the same timestamp in the order of the table (SQLite's sorter is stable on the scan
  order, though the language leaves the order of ties open).
\<close>

definition order_desc :: "('a \<Rightarrow> nat) \<Rightarrow> 'a list \<Rightarrow> 'a list" where
  "order_desc f xs = sort_key (\<lambda>x. - int (f x)) xs"

text \<open>\<open>Boolean(x)\<close> on an integer column.\<close>

definition Boolean :: "int \<Rightarrow> bool" where
  "Boolean i = (i \<noteq> 0)"

section \<open>Strings\<close>

text \<open>
  Strings are sequences of UTF-8 bytes. The white space of JavaScript, which
  \<open>String.prototype.trim\<close> strips and \<open>\s\<close> matches, is the tab, the line feed, the
  vertical tab, the form feed, the carriage return, the space, U+00A0, U+1680, U+2000 to
  U+200A, U+2028, U+2029, U+202F, U+205F, U+3000 and U+FEFF; each is given by its bytes.
\<close>

definition white_space :: "string list" where
  "white_space =
     [[CHR 0x09], [CHR 0x0A], [CHR 0x0B], [CHR 0x0C], [CHR 0x0D], [CHR 0x20],
      [CHR 0xC2, CHR 0xA0],
      [CHR 0xE1, CHR 0x9A, CHR 0x80],
      [CHR 0xE2, CHR 0x80, CHR 0x80], [CHR 0xE2, CHR 0x80, CHR 0x81],
      [CHR 0xE2, CHR 0x80, CHR 0x82], [CHR 0xE2, CHR 0x80, CHR 0x83],
      [CHR 0xE2, CHR 0x80, CHR 0x84], [CHR 0xE2, CHR 0x80, CHR 0x85],
      [CHR 0xE2, CHR 0x80, CHR 0x86], [CHR 0xE2, CHR 0x80, CHR 0x87],
      [CHR 0xE2, CHR 0x80, CHR 0x88], [CHR 0xE2, CHR 0x80, CHR 0x89],
      [CHR 0xE2, CHR 0x80, CHR 0x8A],
      [CHR 0xE2, CHR 0x80, CHR 0xA8], [CHR 0xE2, CHR 0x80, CHR 0xA9],
      [CHR 0xE2, CHR 0x80, CHR 0xAF],
      [CHR 0xE2, CHR 0x81, CHR 0x9F],
      [CHR 0xE3, CHR 0x80, CHR 0x80],
      [CHR 0xEF, CHR 0xBB, CHR 0xBF]]"

text \<open>
  \<open>s.length\<close> counts UTF-16 code units: one for a character of one to three bytes, two
  for a character of four bytes. A character starts at every byte that is not a
  continuation byte (\<open>0x80\<close> to \<open>0xBF\<close>), and a four-byte character at a byte from \<open>0xF0\<close>.
\<close>

definition js_length :: "string \<Rightarrow> nat" where
  "js_length s =
     length (filter (\<lambda>c. (of_char c :: nat) < 0x80 \<or> 0xC0 \<le> (of_char c :: nat)) s)
       + length (filter (\<lambda>c. 0xF0 \<le> (of_char c :: nat)) s)"

text \<open>The number of bytes of the first of the sequences \<open>ws\<close> that \<open>s\<close> starts with, or 0.\<close>

definition leading :: "string list \<Rightarrow> string \<Rightarrow> nat" where
  "leading ws s =
     (case find (\<lambda>w. w \<noteq> [] \<and> startsWith s w) ws of None \<Rightarrow> 0 | Some w \<Rightarrow> length w)"

text \<open>Dropping the sequences \<open>ws\<close> from the start of \<open>s\<close> as long as one is there.\<close>

function strip :: "string list \<Rightarrow> string \<Rightarrow> string" where
  "strip ws s = (if leading ws s = 0 then s else strip ws (drop (leading ws s) s))"
  by pat_completeness auto
termination
proof (relation "measure (\<lambda>(ws, s). length s)")
  fix ws :: "string list" and s :: string
  assume "leading ws s \<noteq> 0"
  then obtain w where w: "w \<noteq> []" "startsWith s w" "leading ws s = length w"
    by (auto simp: leading_def find_Some_iff split: option.splits)
  then have "s \<noteq> []" by (cases w; cases s) auto
  with w show "((ws, drop (leading ws s) s), (ws, s)) \<in> measure (\<lambda>(ws, s). length s)"
    by simp
qed simp

declare strip.simps [simp del]

definition trimStart :: "string \<Rightarrow> string" where
  "trimStart s = strip white_space s"

definition trimEnd :: "string \<Rightarrow> string" where
  "trimEnd s = rev (strip (map rev white_space) (rev s))"

text \<open>\<open>String.prototype.trim\<close>: the white space at both ends is removed.\<close>

definition trim :: "string \<Rightarrow> string" where
  "trim s = trimEnd (trimStart s)"

section \<open>TicketService: the message thread\<close>

record message_user =
  mu_id :: nat
  mu_name :: string
  mu_email :: string
  mu_role :: string

record ticket_message =
  msg_id :: nat
  msg_ticket_id :: nat
  msg_user_id :: nat
  msg_message :: string
  is_internal :: bool
  msg_created_at :: nat
  msg_user :: message_user

text \<open>\<open>TicketMessageCreate\<close>: \<open>is_internal\<close> is optional.\<close>

record ticket_message_create =
  tmc_message :: string
  tmc_is_internal :: "bool option"

definition getTicketById :: "database \<Rightarrow> nat \<Rightarrow> ticket option" where
  "getTicketById db i = first_row (filter (\<lambda>t. t_id t = i) (tickets db))"

text \<open>
  The object both message readers build from a joined row of \<open>ticket_messages\<close> and
  \<open>users\<close>: the integer column goes through \<open>Boolean\<close>.
\<close>

definition to_ticket_message :: "message_row \<Rightarrow> user_row \<Rightarrow> ticket_message" where
  "to_ticket_message tm u =
     \<lparr> msg_id = tm_id tm, msg_ticket_id = tm_ticket_id tm, msg_user_id = tm_user_id tm,
       msg_message = tm_message tm, is_internal = Boolean (tm_is_internal tm),
       msg_created_at = tm_created_at tm,
       msg_user = \<lparr> mu_id = tm_user_id tm, mu_name = u_name u, mu_email = u_email u,
                    mu_role = u_role u \<rparr> \<rparr>"

text \<open>\<open>FROM ticket_messages tm JOIN users u ON tm.user_id = u.id\<close>, on the given rows.\<close>

definition join_users :: "database \<Rightarrow> message_row list \<Rightarrow> ticket_message list" where
  "join_users db rows =
     concat (map (\<lambda>tm. map (to_ticket_message tm)
                          (filter (\<lambda>u. u_id u = tm_user_id tm) (users db))) rows)"

definition getMessageById :: "database \<Rightarrow> nat \<Rightarrow> ticket_message option" where
  "getMessageById db i =
     first_row (join_users db (filter (\<lambda>tm. tm_id tm = i) (ticket_messages db)))"

text \<open>
  \<open>ORDER BY tm.created_at ASC\<close> is a stable sort of the insertion order here; SQLite
  leaves the order of rows with equal timestamps open.
\<close>

definition getTicketMessages :: "database \<Rightarrow> nat \<Rightarrow> ticket_message list" where
  "getTicketMessages db ticketId =
     join_users db
       (sort_key tm_created_at (filter (\<lambda>tm. tm_ticket_id tm = ticketId) (ticket_messages db)))"

text \<open>
  The \<open>INSERT INTO ticket_messages\<close>: both foreign keys are enforced
  (\<open>foreign_keys = ON\<close>); the result is the new row id and the new store.
\<close>

definition insert_message ::
  "database \<Rightarrow> nat \<Rightarrow> nat \<Rightarrow> nat \<Rightarrow> string \<Rightarrow> int \<Rightarrow> error + nat \<times> database" where
  "insert_message db ts ticketId uid body flag =
     (if ticketId \<notin> set (map t_id (tickets db)) \<or> uid \<notin> set (map u_id (users db))
      then Inl Sqlite_foreign_key
      else let rowid = next_rowid (seq_ticket_messages db) (map tm_id (ticket_messages db)) in
        Inr (rowid,
             db\<lparr> ticket_messages := ticket_messages db @
                    [\<lparr> tm_id = rowid, tm_ticket_id = ticketId, tm_user_id = uid,
                       tm_message = body, tm_is_internal = flag, tm_created_at = ts \<rparr>],
                 seq_ticket_messages := rowid \<rparr>))"

text \<open>
  \<open>TicketService.addMessage\<close>. The result of \<open>getMessageById(messageId)!\<close> is an option:
  the non-null assertion does nothing at run time.
\<close>

definition TicketService_addMessage ::
  "database \<Rightarrow> env \<Rightarrow> nat \<Rightarrow> nat \<Rightarrow> ticket_message_create
     \<Rightarrow> (error + ticket_message option) \<times> database" where
  "TicketService_addMessage db e ticketId uid messageData =
     (let message = tmc_message messageData;
          is_internal = (case tmc_is_internal messageData of None \<Rightarrow> False | Some b \<Rightarrow> b)
      in if message = [] \<or> length (trim message) = 0 then (Inl Message_content_required, db)
         else case getTicketById db ticketId of
                None \<Rightarrow> (Inl Ticket_not_found, db)
              | Some ticket \<Rightarrow>
                 let isInternalValue = (if is_internal then 1 else 0) in
                 (case insert_message db (now e) ticketId uid (trim message) isInternalValue of
                    Inl err \<Rightarrow> (Inl err, db)
                  | Inr (messageId, db') \<Rightarrow> (Inr (getMessageById db' messageId), db')))"

section \<open>TicketService: the ticket registry\<close>

definition padStart :: "string \<Rightarrow> nat \<Rightarrow> char \<Rightarrow> string" where
  "padStart s n c = replicate (n - length s) c @ s"

text \<open>
  \<open>generateTicketNumber\<close>, from the year and the value of
  \<open>Math.floor(Math.random() * 10000)\<close>.
\<close>

definition generateTicketNumber :: "nat \<Rightarrow> nat \<Rightarrow> string" where
  "generateTicketNumber year randomNum =
     ''TKT-'' @ toString year @ ''-'' @ padStart (toString randomNum) 4 CHR ''0''"

text \<open>
  \<open>TicketCreate\<close>. The service tests \<open>!title\<close>, \<open>!description\<close>, \<open>!category\<close>, so these
  three may be absent (\<open>None\<close>); values that are not strings are outside this type.
\<close>

record ticket_create =
  tc_title :: "string option"
  tc_description :: "string option"
  tc_category :: "string option"
  tc_priority :: string

definition categories :: "string list" where
  "categories = [''hardware'', ''software'', ''network'', ''access'', ''other'']"

definition priorities :: "string list" where
  "priorities = [''low'', ''medium'', ''high'', ''critical'']"

definition statuses :: "string list" where
  "statuses = [''open'', ''in_progress'', ''resolved'', ''closed'']"

text \<open>
  The \<open>INSERT INTO tickets\<close>. The statement names neither \<open>status\<close> nor \<open>assigned_to\<close>:
  they take the schema's defaults, \<open>'open'\<close> and \<open>NULL\<close>. The \<open>CHECK\<close> constraints, the
  \<open>UNIQUE\<close> ticket number and the foreign key to \<open>users\<close> are enforced.
\<close>

definition insert_ticket ::
  "database \<Rightarrow> nat \<Rightarrow> string \<Rightarrow> nat \<Rightarrow> string \<Rightarrow> string \<Rightarrow> string \<Rightarrow> string
     \<Rightarrow> error + nat \<times> database" where
  "insert_ticket db ts ticketNumber uid ttl descr cat prio =
     (if cat \<notin> set categories \<or> prio \<notin> set priorities then Inl Sqlite_check
      else if ticketNumber \<in> set (map ticket_number (tickets db)) then Inl Sqlite_unique
      else if uid \<notin> set (map u_id (users db)) then Inl Sqlite_foreign_key
      else let rowid = next_rowid (seq_tickets db) (map t_id (tickets db)) in
        Inr (rowid,
             db\<lparr> tickets := tickets db @
                    [\<lparr> t_id = rowid, ticket_number = ticketNumber, user_id = uid, title = ttl,
                       description = descr, category = cat, priority = prio,
                       status = ''open'', assigned_to = None, created_at = ts,
                       updated_at = ts \<rparr>],
                 seq_tickets := rowid \<rparr>))"

definition TicketService_createTicket ::
  "database \<Rightarrow> env \<Rightarrow> nat \<Rightarrow> ticket_create \<Rightarrow> (error + ticket option) \<times> database" where
  "TicketService_createTicket db e uid ticketData =
     (case (tc_title ticketData, tc_description ticketData, tc_category ticketData) of
        (Some ttl, Some descr, Some cat) \<Rightarrow>
          if ttl = [] \<or> descr = [] \<or> cat = [] then (Inl Required_fields, db)
          else
            let ticketNumber = generateTicketNumber (full_year e) (random_num e) in
            (case insert_ticket db (now e) ticketNumber uid ttl descr cat (tc_priority ticketData) of
               Inl err \<Rightarrow> (Inl err, db)
             | Inr (ticketId, db') \<Rightarrow> (Inr (getTicketById db' ticketId), db'))
      | _ \<Rightarrow> (Inl Required_fields, db))"

text \<open>
  A sequence of calls of \<open>createTicket\<close>, each with its own readings of the clock and the
  random source, its caller and its data; the result collects the tickets that the
  successful calls returned, in order, and the store after the last call.
\<close>

fun create_tickets ::
  "database \<Rightarrow> (env \<times> nat \<times> ticket_create) list \<Rightarrow> ticket list \<times> database" where
  "create_tickets db [] = ([], db)"
| "create_tickets db ((e, uid, ticketData) # calls) =
     (case TicketService_createTicket db e uid ticketData of
        (Inr (Some t), db') \<Rightarrow>
          (case create_tickets db' calls of (ts, db'') \<Rightarrow> (t # ts, db''))
      | (_, db') \<Rightarrow> create_tickets db' calls)"

definition getTicketsByUser :: "database \<Rightarrow> nat \<Rightarrow> ticket list" where
  "getTicketsByUser db uid = order_desc created_at (filter (\<lambda>t. user_id t = uid) (tickets db))"

definition getAllTickets :: "database \<Rightarrow> ticket list" where
  "getAllTickets db = order_desc created_at (tickets db)"

text \<open>\<open>TicketUpdate\<close>: each field may be \<open>undefined\<close>.\<close>

record ticket_update =
  tu_status :: "string option"
  tu_assigned_to :: "nat option"
  tu_priority :: "string option"

definition apply_update :: "nat \<Rightarrow> ticket_update \<Rightarrow> ticket \<Rightarrow> ticket" where
  "apply_update ts updates t =
     t\<lparr> status := (case tu_status updates of None \<Rightarrow> status t | Some s \<Rightarrow> s),
        assigned_to := (case tu_assigned_to updates of None \<Rightarrow> assigned_to t | Some a \<Rightarrow> Some a),
        priority := (case tu_priority updates of None \<Rightarrow> priority t | Some p \<Rightarrow> p),
        updated_at := ts \<rparr>"

text \<open>The \<open>UPDATE tickets SET ... WHERE id = ?\<close>, under the schema's constraints.\<close>

definition update_ticket :: "database \<Rightarrow> nat \<Rightarrow> nat \<Rightarrow> ticket_update \<Rightarrow> error + database" where
  "update_ticket db ts i updates =
     (if (case tu_status updates of None \<Rightarrow> False | Some s \<Rightarrow> s \<notin> set statuses)
         \<or> (case tu_priority updates of None \<Rightarrow> False | Some p \<Rightarrow> p \<notin> set priorities)
      then Inl Sqlite_check
      else if (case tu_assigned_to updates of None \<Rightarrow> False
               | Some a \<Rightarrow> a \<notin> set (map u_id (users db)))
      then Inl Sqlite_foreign_key
      else Inr (db\<lparr> tickets :=
                  map (\<lambda>t. if t_id t = i then apply_update ts updates t else t) (tickets db) \<rparr>))"

definition TicketService_updateTicket ::
  "database \<Rightarrow> env \<Rightarrow> nat \<Rightarrow> ticket_update \<Rightarrow> (error + ticket option) \<times> database" where
  "TicketService_updateTicket db e i updates =
     (case getTicketById db i of
        None \<Rightarrow> (Inl Ticket_not_found, db)
      | Some ticket \<Rightarrow>
          if tu_status updates = None \<and> tu_assigned_to updates = None \<and> tu_priority updates = None
          then (Inr (Some ticket), db)
          else (case update_ticket db (now e) i updates of
                  Inl err \<Rightarrow> (Inl err, db)
                | Inr db' \<Rightarrow> (Inr (getTicketById db' i), db')))"

text \<open>
  \<open>DELETE FROM tickets WHERE id = ?\<close>: the messages and attachment rows of the ticket go
  with it (\<open>ON DELETE CASCADE\<close>). The result is \<open>changes > 0\<close>.
\<close>

definition TicketService_deleteTicket :: "database \<Rightarrow> nat \<Rightarrow> bool \<times> database" where
  "TicketService_deleteTicket db i =
     (if i \<in> set (map t_id (tickets db))
      then (True, db\<lparr> tickets := filter (\<lambda>t. t_id t \<noteq> i) (tickets db),
                      ticket_messages := filter (\<lambda>m. tm_ticket_id m \<noteq> i) (ticket_messages db),
                      attachments := filter (\<lambda>a. a_ticket_id a \<noteq> i) (attachments db) \<rparr>)
      else (False, db))"

record user_info =
  ui_id :: nat
  ui_name :: string
  ui_email :: string

definition get_user_info :: "database \<Rightarrow> nat \<Rightarrow> user_info option" where
  "get_user_info db i =
     first_row (map (\<lambda>u. \<lparr> ui_id = u_id u, ui_name = u_name u, ui_email = u_email u \<rparr>)
                    (filter (\<lambda>u. u_id u = i) (users db)))"

text \<open>The object \<open>getTicketWithDetails\<close> returns: the ticket and three more fields.\<close>

record ticket_details =
  td_ticket :: ticket
  td_user :: "user_info option"
  td_assigned_admin :: "user_info option"
  td_messages :: "ticket_message list"

definition getTicketWithDetails :: "database \<Rightarrow> nat \<Rightarrow> ticket_details option" where
  "getTicketWithDetails db i =
     (case getTicketById db i of
        None \<Rightarrow> None
      | Some ticket \<Rightarrow>
          let messages = getTicketMessages db i;
              user = get_user_info db (user_id ticket);
              assignedAdmin = (case assigned_to ticket of
                                 None \<Rightarrow> None
                               | Some a \<Rightarrow> if a = 0 then None else get_user_info db a)
          in Some \<lparr> td_ticket = ticket, td_user = user, td_assigned_admin = assignedAdmin,
                    td_messages = messages \<rparr>)"

text \<open>SQLite's \<open>LIKE\<close>: \<open>%\<close> is any run of characters, \<open>_\<close> any one, ASCII letters fold case.\<close>

definition lower :: "char \<Rightarrow> char" where
  "lower c =
     (case map_of (zip ''ABCDEFGHIJKLMNOPQRSTUVWXYZ'' ''abcdefghijklmnopqrstuvwxyz'') c of
        None \<Rightarrow> c
      | Some l \<Rightarrow> l)"

fun like :: "string \<Rightarrow> string \<Rightarrow> bool" where
  "like [] s = (s = [])"
| "like (p # ps) [] = (p = CHR ''%'' \<and> like ps [])"
| "like (p # ps) (c # cs) =
     (if p = CHR ''%'' then like ps (c # cs) \<or> like (p # ps) cs
      else (p = CHR ''_'' \<or> lower p = lower c) \<and> like ps cs)"

text \<open>
  \<open>searchTickets(query, userId?)\<close>. The owner clause is added under \<open>if (userId)\<close>, which
  holds for a number other than 0.
\<close>

definition TicketService_searchTickets :: "database \<Rightarrow> string \<Rightarrow> nat option \<Rightarrow> ticket list" where
  "TicketService_searchTickets db query uid =
     (let pat = ''%'' @ query @ ''%'';
          found = filter (\<lambda>t. like pat (title t) \<or> like pat (description t)
                               \<or> like pat (ticket_number t)) (tickets db);
          scoped = (case uid of
                      None \<Rightarrow> found
                    | Some u \<Rightarrow> if u \<noteq> 0 then filter (\<lambda>t. user_id t = u) found else found)
      in order_desc created_at scoped)"

section \<open>Middleware and TicketController\<close>

text \<open>
  \<open>requireAdmin\<close>: \<open>Some r\<close> when the middleware answers the request itself, \<open>None\<close> when
  it calls \<open>next()\<close>. The request's \<open>user\<close> is what \<open>authenticate\<close> left there.
\<close>

definition requireAdmin :: "auth_user option \<Rightarrow> 'a response option" where
  "requireAdmin user =
     (case user of
        None \<Rightarrow> Some (Response 401 None ''Authentication required'')
      | Some u \<Rightarrow> if role u \<noteq> Admin then Some (Response 403 None ''Admin access required'')
                  else None)"

text \<open>The body of \<open>POST /tickets\<close>; an absent field is \<open>None\<close>.\<close>

record create_body =
  b_title :: "string option"
  b_description :: "string option"
  b_category :: "string option"
  b_priority :: "string option"

definition TicketController_createTicket ::
  "database \<Rightarrow> env \<Rightarrow> auth_user option \<Rightarrow> create_body \<Rightarrow> ticket response \<times> database" where
  "TicketController_createTicket db e user body =
     (case user of
        None \<Rightarrow> (Response 401 None ''Authentication required'', db)
      | Some u \<Rightarrow>
          let prio = (case b_priority body of None \<Rightarrow> ''medium'' | Some p \<Rightarrow> p) in
          (case TicketService_createTicket db e (userId u)
                  \<lparr> tc_title = b_title body, tc_description = b_description body,
                    tc_category = b_category body, tc_priority = prio \<rparr> of
             (Inl err, db') \<Rightarrow> (errorHandler err, db')
           | (Inr ticket, db') \<Rightarrow> (Response 201 ticket ''Ticket created successfully'', db')))"

definition TicketController_getTickets ::
  "database \<Rightarrow> auth_user option \<Rightarrow> ticket list response" where
  "TicketController_getTickets db user =
     (case user of
        None \<Rightarrow> Response 401 None ''Authentication required''
      | Some u \<Rightarrow>
          let tickets = (if role u = Admin then getAllTickets db
                         else getTicketsByUser db (userId u))
          in Response 200 (Some tickets) ''Tickets retrieved successfully'')"

definition TicketController_getTicketById ::
  "database \<Rightarrow> auth_user option \<Rightarrow> nat \<Rightarrow> ticket_details response" where
  "TicketController_getTicketById db user ticketId =
     (case user of
        None \<Rightarrow> Response 401 None ''Authentication required''
      | Some u \<Rightarrow>
          (case getTicketWithDetails db ticketId of
             None \<Rightarrow> Response 404 None ''Ticket not found''
           | Some ticket \<Rightarrow>
               if role u \<noteq> Admin \<and> user_id (td_ticket ticket) \<noteq> userId u
               then Response 403 None ''Access denied''
               else Response 200 (Some ticket) ''Ticket retrieved successfully''))"

definition TicketController_updateTicket ::
  "database \<Rightarrow> env \<Rightarrow> auth_user option \<Rightarrow> nat \<Rightarrow> ticket_update \<Rightarrow> ticket response \<times> database" where
  "TicketController_updateTicket db e user ticketId body =
     (case user of
        None \<Rightarrow> (Response 401 None ''Authentication required'', db)
      | Some u \<Rightarrow>
          (case TicketService_updateTicket db e ticketId body of
             (Inl err, db') \<Rightarrow> (errorHandler err, db')
           | (Inr ticket, db') \<Rightarrow> (Response 200 ticket ''Ticket updated successfully'', db')))"

definition TicketController_deleteTicket ::
  "database \<Rightarrow> auth_user option \<Rightarrow> nat \<Rightarrow> unit response \<times> database" where
  "TicketController_deleteTicket db user ticketId =
     (case user of
        None \<Rightarrow> (Response 401 None ''Authentication required'', db)
      | Some u \<Rightarrow>
          (case TicketService_deleteTicket db ticketId of
             (deleted, db') \<Rightarrow>
               if \<not> deleted then (Response 404 None ''Ticket not found'', db')
               else (Response 200 None ''Ticket deleted successfully'', db')))"

text \<open>The routes \<open>PUT /:id\<close> and \<open>DELETE /:id\<close> put \<open>requireAdmin\<close> before the controller.\<close>

definition route_put_ticket ::
  "database \<Rightarrow> env \<Rightarrow> auth_user option \<Rightarrow> nat \<Rightarrow> ticket_update \<Rightarrow> ticket response \<times> database" where
  "route_put_ticket db e user ticketId body =
     (case requireAdmin user of
        Some r \<Rightarrow> (r, db)
      | None \<Rightarrow> TicketController_updateTicket db e user ticketId body)"

definition route_delete_ticket ::
  "database \<Rightarrow> auth_user option \<Rightarrow> nat \<Rightarrow> unit response \<times> database" where
  "route_delete_ticket db user ticketId =
     (case requireAdmin user of
        Some r \<Rightarrow> (r, db)
      | None \<Rightarrow> TicketController_deleteTicket db user ticketId)"

text \<open>
  The test the controller makes on \<open>req.body.message\<close>:
  \<open>!message || typeof message !== 'string' || message.trim().length === 0\<close>.
  The result is the string when the test lets it through. The trimmed string has the
  length 0 exactly when no byte of it is left.
\<close>

fun message_content :: "json \<Rightarrow> string option" where
  "message_content (JStr s) = (if s = [] \<or> length (trim s) = 0 then None else Some s)"
| "message_content _ = None"

text \<open>\<open>is_internal === true || is_internal === 'true' || is_internal === 1\<close>.\<close>

definition requests_internal :: "json \<Rightarrow> bool" where
  "requests_internal v = (v = JBool True \<or> v = JStr ''true'' \<or> v = JNum 1)"

definition TicketController_addMessage ::
  "database \<Rightarrow> env \<Rightarrow> auth_user option \<Rightarrow> nat \<Rightarrow> json \<Rightarrow> json
     \<Rightarrow> ticket_message response \<times> database" where
  "TicketController_addMessage db e user ticketId body_message body_is_internal =
     (case user of
        None \<Rightarrow> (Response 401 None ''Authentication required'', db)
      | Some u \<Rightarrow>
          let is_internal = (if body_is_internal = JUndefined then JBool False else body_is_internal) in
          (case message_content body_message of
             None \<Rightarrow> (Response 400 None ''Message content is required'', db)
           | Some message \<Rightarrow>
               (case getTicketById db ticketId of
                  None \<Rightarrow> (Response 404 None ''Ticket not found'', db)
                | Some ticket \<Rightarrow>
                    if role u \<noteq> Admin \<and> user_id ticket \<noteq> userId u
                    then (Response 403 None ''Access denied'', db)
                    else
                      let isInternalBool = (role u = Admin \<and> requests_internal is_internal) in
                      (case TicketService_addMessage db e ticketId (userId u)
                              \<lparr> tmc_message = trim message,
                                tmc_is_internal = Some isInternalBool \<rparr> of
                         (Inl err, db') \<Rightarrow> (errorHandler err, db')
                       | (Inr ticketMessage, db') \<Rightarrow>
                           (Response 201 ticketMessage ''Message added successfully'', db')))))"

definition TicketController_getTicketMessages ::
  "database \<Rightarrow> auth_user option \<Rightarrow> nat \<Rightarrow> ticket_message list response" where
  "TicketController_getTicketMessages db user ticketId =
     (case user of
        None \<Rightarrow> Response 401 None ''Authentication required''
      | Some u \<Rightarrow>
          (case getTicketById db ticketId of
             None \<Rightarrow> Response 404 None ''Ticket not found''
           | Some ticket \<Rightarrow>
               if role u \<noteq> Admin \<and> user_id ticket \<noteq> userId u
               then Response 403 None ''Access denied''
               else
                 let messages = getTicketMessages db ticketId;
                     filteredMessages = (if role u = Admin then messages
                                         else filter (\<lambda>message. \<not> is_internal message) messages)
                 in Response 200 (Some filteredMessages) ''Messages retrieved successfully''))"

text \<open>
  \<open>req.query.q\<close> is \<open>None\<close> when it is absent or not a string; the controller also refuses
  the empty string (\<open>!query\<close>).
\<close>

definition TicketController_searchTickets ::
  "database \<Rightarrow> auth_user option \<Rightarrow> string option \<Rightarrow> ticket list response" where
  "TicketController_searchTickets db user q =
     (case user of
        None \<Rightarrow> Response 401 None ''Authentication required''
      | Some u \<Rightarrow>
          (case q of
             None \<Rightarrow> Response 400 None ''Search query is required''
           | Some query \<Rightarrow>
               if query = [] then Response 400 None ''Search query is required''
               else
                 let uid = (if role u = Admin then None else Some (userId u));
                     tickets = TicketService_searchTickets db query uid
                 in Response 200 (Some tickets) ''Search completed successfully''))"

section \<open>The disk\<close>

text \<open>
  The upload directory as \<open>fs\<close> sees it: the content of each path that holds a file, and
  the paths whose removal the operating system refuses (a missing permission, a busy
  file). Writing a file is taken to succeed.
\<close>

record filesystem =
  files :: "string \<Rightarrow> string option"
  unlink_refused :: "string set"

definition existsSync :: "filesystem \<Rightarrow> string \<Rightarrow> bool" where
  "existsSync disk p = (files disk p \<noteq> None)"

definition writeFileSync :: "filesystem \<Rightarrow> string \<Rightarrow> string \<Rightarrow> filesystem" where
  "writeFileSync disk p content = disk\<lparr> files := (files disk)(p \<mapsto> content) \<rparr>"

text \<open>\<open>fs.unlinkSync\<close> throws when the file is missing or its removal is refused.\<close>

definition unlinkSync :: "filesystem \<Rightarrow> string \<Rightarrow> error + filesystem" where
  "unlinkSync disk p =
     (if files disk p = None \<or> p \<in> unlink_refused disk then Inl Io_error
      else Inr (disk\<lparr> files := (files disk)(p := None) \<rparr>))"

section \<open>FileService\<close>

text \<open>\<open>process.env.UPLOAD_DIR\<close> and \<open>process.env.MAX_FILE_SIZE\<close>, with their defaults.\<close>

record config =
  UPLOAD_DIR :: string
  MAX_FILE_SIZE :: nat

definition default_config :: config where
  "default_config = \<lparr> UPLOAD_DIR = ''./uploads'', MAX_FILE_SIZE = 5242880 \<rparr>"

text \<open>
  The fields of \<open>Express.Multer.File\<close> the service reads (\<open>size_bytes\<close> is its \<open>size\<close>).
\<close>

record multer_file =
  originalname :: string
  mimetype :: string
  size_bytes :: nat
  buffer :: string

definition allowedMimeTypes :: "string list" where
  "allowedMimeTypes =
     [''image/jpeg'', ''image/png'', ''image/gif'', ''application/pdf'', ''text/plain'',
      ''application/msword'',
      ''application/vnd.openxmlformats-officedocument.wordprocessingml.document'',
      ''application/zip'']"

text \<open>\<open>originalFilename.split('.').pop()\<close>: what follows the last dot, or the whole name.\<close>

definition extension :: "string \<Rightarrow> string" where
  "extension s = rev (takeWhile (\<lambda>c. c \<noteq> CHR ''.'') (rev s))"

definition generateUniqueFilename :: "env \<Rightarrow> string \<Rightarrow> string" where
  "generateUniqueFilename e originalFilename =
     toString (date_now e) @ ''-'' @ random_hex e @ ''.'' @ extension originalFilename"

text \<open>
  \<open>path.join\<close> (POSIX) of the directory and a file name: the non-empty arguments are
  joined with a slash and the result is normalised, as \<open>path.normalize\<close> does it: empty
  and \<open>.\<close> segments are dropped, a \<open>..\<close> removes the segment before it (above the start
  of a relative path it is kept), and a trailing slash is kept.
\<close>

fun split_on :: "char \<Rightarrow> string \<Rightarrow> string list" where
  "split_on d [] = [[]]"
| "split_on d (c # cs) =
     (if c = d then [] # split_on d cs
      else (case split_on d cs of [] \<Rightarrow> [[c]] | x # xs \<Rightarrow> (c # x) # xs))"

definition normalize_step :: "bool \<Rightarrow> string list \<Rightarrow> string \<Rightarrow> string list" where
  "normalize_step allowAboveRoot res seg =
     (if seg = [] \<or> seg = ''.'' then res
      else if seg = ''..'' then
        (if res \<noteq> [] \<and> last res \<noteq> ''..'' then butlast res
         else if allowAboveRoot then res @ [''..''] else res)
      else res @ [seg])"

fun join_segments :: "string list \<Rightarrow> string" where
  "join_segments [] = []"
| "join_segments [x] = x"
| "join_segments (x # y # ys) = x @ ''/'' @ join_segments (y # ys)"

definition normalize :: "string \<Rightarrow> string" where
  "normalize p =
     (if p = [] then ''.''
      else
        let isAbsolute = (hd p = CHR ''/'');
            trailingSeparator = (last p = CHR ''/'');
            path = join_segments
                     (foldl (normalize_step (\<not> isAbsolute)) [] (split_on CHR ''/'' p))
        in if path = [] then
             (if isAbsolute then ''/'' else if trailingSeparator then ''./'' else ''.'')
           else (if isAbsolute then ''/'' else []) @ path
                  @ (if trailingSeparator then ''/'' else []))"

definition path_join :: "string \<Rightarrow> string \<Rightarrow> string" where
  "path_join dir name =
     normalize (if dir = [] then name else if name = [] then dir else dir @ ''/'' @ name)"

definition getAttachmentById :: "database \<Rightarrow> nat \<Rightarrow> attachment option" where
  "getAttachmentById db i = first_row (filter (\<lambda>a. a_id a = i) (attachments db))"

definition getTicketAttachments :: "database \<Rightarrow> nat \<Rightarrow> attachment list" where
  "getTicketAttachments db ticketId =
     order_desc uploaded_at (filter (\<lambda>a. a_ticket_id a = ticketId) (attachments db))"

text \<open>The \<open>INSERT INTO attachments\<close>, with its two foreign keys.\<close>

definition insert_attachment ::
  "database \<Rightarrow> nat \<Rightarrow> nat \<Rightarrow> string \<Rightarrow> string \<Rightarrow> string \<Rightarrow> nat \<Rightarrow> string \<Rightarrow> nat
     \<Rightarrow> error + nat \<times> database" where
  "insert_attachment db ts ticketId oname sname fpath fsize mime uid =
     (if ticketId \<notin> set (map t_id (tickets db)) \<or> uid \<notin> set (map u_id (users db))
      then Inl Sqlite_foreign_key
      else let rowid = next_rowid (seq_attachments db) (map a_id (attachments db)) in
        Inr (rowid,
             db\<lparr> attachments := attachments db @
                    [\<lparr> a_id = rowid, a_ticket_id = ticketId, original_filename = oname,
                       stored_filename = sname, file_path = fpath, file_size = fsize,
                       mime_type = mime, uploaded_by = uid, uploaded_at = ts \<rparr>],
                 seq_attachments := rowid \<rparr>))"

text \<open>
  \<open>FileService.uploadFile\<close>. The state is the store and the disk; the file is on the disk
  before the row is inserted, and stays there when the insert fails.
\<close>

definition FileService_uploadFile ::
  "config \<Rightarrow> database \<times> filesystem \<Rightarrow> env \<Rightarrow> nat \<Rightarrow> nat \<Rightarrow> multer_file
     \<Rightarrow> (error + attachment option) \<times> database \<times> filesystem" where
  "FileService_uploadFile cfg st e ticketId uid file =
     (case st of (db, disk) \<Rightarrow>
        if size_bytes file > MAX_FILE_SIZE cfg then (Inl (File_size_exceeds (MAX_FILE_SIZE cfg)), db, disk)
        else if mimetype file \<notin> set allowedMimeTypes then (Inl File_type_not_allowed, db, disk)
        else
          let storedFilename = generateUniqueFilename e (originalname file);
              filePath = path_join (UPLOAD_DIR cfg) storedFilename;
              disk' = writeFileSync disk filePath (buffer file)
          in (case insert_attachment db (now e) ticketId (originalname file) storedFilename
                     filePath (size_bytes file) (mimetype file) uid of
                Inl err \<Rightarrow> (Inl err, db, disk')
              | Inr (attachmentId, db') \<Rightarrow> (Inr (getAttachmentById db' attachmentId), db', disk')))"

text \<open>
  \<open>FileService.deleteAttachment\<close>. The \<open>try\<close> around the removal of the file catches what
  \<open>unlinkSync\<close> throws and logs it; the \<open>DELETE\<close> follows in every case.
\<close>

definition FileService_deleteAttachment ::
  "database \<times> filesystem \<Rightarrow> nat \<Rightarrow> bool \<times> database \<times> filesystem" where
  "FileService_deleteAttachment st i =
     (case st of (db, disk) \<Rightarrow>
        (case getAttachmentById db i of
           None \<Rightarrow> (False, db, disk)
         | Some attachment \<Rightarrow>
             let disk' = (if existsSync disk (file_path attachment)
                          then (case unlinkSync disk (file_path attachment) of
                                  Inl err \<Rightarrow> disk
                                | Inr d \<Rightarrow> d)
                          else disk);
                 remaining = filter (\<lambda>a. a_id a \<noteq> i) (attachments db)
             in (length remaining < length (attachments db),
                 db\<lparr> attachments := remaining \<rparr>, disk')))"

text \<open>\<open>getFileStream\<close>: the stream is the file's content, \<open>None\<close> when the file is missing.\<close>

definition getFileStream :: "filesystem \<Rightarrow> attachment \<Rightarrow> string option" where
  "getFileStream disk attachment =
     (if \<not> existsSync disk (file_path attachment) then None
      else files disk (file_path attachment))"

definition validateFileAccess :: "database \<Rightarrow> nat \<Rightarrow> nat \<Rightarrow> role \<Rightarrow> bool" where
  "validateFileAccess db attachmentId uid userRole =
     (case getAttachmentById db attachmentId of
        None \<Rightarrow> False
      | Some attachment \<Rightarrow>
          if userRole = Admin then True
          else (case first_row (filter (\<lambda>t. t_id t = a_ticket_id attachment) (tickets db)) of
                  None \<Rightarrow> False
                | Some ticket \<Rightarrow> user_id ticket = uid))"

section \<open>UploadController\<close>

definition UploadController_uploadAttachment ::
  "config \<Rightarrow> database \<times> filesystem \<Rightarrow> env \<Rightarrow> auth_user option \<Rightarrow> multer_file option \<Rightarrow> nat
     \<Rightarrow> attachment response \<times> database \<times> filesystem" where
  "UploadController_uploadAttachment cfg st e user file ticketId =
     (case user of
        None \<Rightarrow> (Response 401 None ''Authentication required'', st)
      | Some u \<Rightarrow>
          (case file of
             None \<Rightarrow> (Response 400 None ''No file uploaded'', st)
           | Some f \<Rightarrow>
               (case getTicketById (fst st) ticketId of
                  None \<Rightarrow> (Response 404 None ''Ticket not found'', st)
                | Some ticket \<Rightarrow>
                    if role u \<noteq> Admin \<and> user_id ticket \<noteq> userId u
                    then (Response 403 None ''Access denied'', st)
                    else (case FileService_uploadFile cfg st e ticketId (userId u) f of
                            (Inl err, st') \<Rightarrow> (errorHandler err, st')
                          | (Inr attachment, st') \<Rightarrow>
                              (Response 201 attachment ''File uploaded successfully'', st')))))"

definition UploadController_getTicketAttachments ::
  "database \<Rightarrow> auth_user option \<Rightarrow> nat \<Rightarrow> attachment list response" where
  "UploadController_getTicketAttachments db user ticketId =
     (case user of
        None \<Rightarrow> Response 401 None ''Authentication required''
      | Some u \<Rightarrow>
          (case getTicketById db ticketId of
             None \<Rightarrow> Response 404 None ''Ticket not found''
           | Some ticket \<Rightarrow>
               if role u \<noteq> Admin \<and> user_id ticket \<noteq> userId u
               then Response 403 None ''Access denied''
               else Response 200 (Some (getTicketAttachments db ticketId))
                      ''Attachments retrieved successfully''))"

text \<open>
  \<open>downloadAttachment\<close>. A successful download pipes the file into the response: its
  data is the content and it has no message.
\<close>

definition UploadController_downloadAttachment ::
  "database \<times> filesystem \<Rightarrow> auth_user option \<Rightarrow> nat \<Rightarrow> string response" where
  "UploadController_downloadAttachment st user attachmentId =
     (case st of (db, disk) \<Rightarrow>
        (case user of
           None \<Rightarrow> Response 401 None ''Authentication required''
         | Some u \<Rightarrow>
             if \<not> validateFileAccess db attachmentId (userId u) (role u)
             then Response 403 None ''Access denied''
             else (case getAttachmentById db attachmentId of
                     None \<Rightarrow> Response 404 None ''Attachment not found''
                   | Some attachment \<Rightarrow>
                       (case getFileStream disk attachment of
                          None \<Rightarrow> Response 404 None ''File not found on disk''
                        | Some fileStream \<Rightarrow> Response 200 (Some fileStream) []))))"

definition UploadController_deleteAttachment ::
  "database \<times> filesystem \<Rightarrow> auth_user option \<Rightarrow> nat \<Rightarrow> unit response \<times> database \<times> filesystem" where
  "UploadController_deleteAttachment st user attachmentId =
     (case user of
        None \<Rightarrow> (Response 401 None ''Authentication required'', st)
      | Some u \<Rightarrow>
          if role u \<noteq> Admin then (Response 403 None ''Admin access required'', st)
          else (case FileService_deleteAttachment st attachmentId of
                  (deleted, st') \<Rightarrow>
                    if \<not> deleted then (Response 404 None ''Attachment not found'', st')
                    else (Response 200 None ''Attachment deleted successfully'', st')))"

text \<open>The route \<open>DELETE /attachments/:id\<close> puts \<open>requireAdmin\<close> before the controller.\<close>

definition route_delete_attachment ::
  "database \<times> filesystem \<Rightarrow> auth_user option \<Rightarrow> nat \<Rightarrow> unit response \<times> database \<times> filesystem" where
  "route_delete_attachment st user attachmentId =
     (case requireAdmin user of
        Some r \<Rightarrow> (r, st)
      | None \<Rightarrow> UploadController_deleteAttachment st user attachmentId)"

section \<open>UserService: the active flag\<close>

text \<open>The user object the service returns (the password hash is not selected).\<close>

record user =
  usr_id :: nat
  usr_name :: string
  usr_email :: string
  usr_role :: string
  is_active :: bool
  usr_created_at :: nat
  usr_updated_at :: nat

definition to_user :: "user_row \<Rightarrow> user" where
  "to_user u =
     \<lparr> usr_id = u_id u, usr_name = u_name u, usr_email = u_email u, usr_role = u_role u,
       is_active = Boolean (u_is_active u), usr_created_at = u_created_at u,
       usr_updated_at = u_updated_at u \<rparr>"

definition UserService_getAllUsers :: "database \<Rightarrow> user list" where
  "UserService_getAllUsers db = map to_user (order_desc u_created_at (users db))"

definition UserService_getUserById :: "database \<Rightarrow> nat \<Rightarrow> user option" where
  "UserService_getUserById db i = first_row (map to_user (filter (\<lambda>u. u_id u = i) (users db)))"

text \<open>\<open>AuthService.getUserById\<close> selects active users only (\<open>is_active = 1\<close>).\<close>

definition AuthService_getUserById :: "database \<Rightarrow> nat \<Rightarrow> user option" where
  "AuthService_getUserById db i =
     first_row (map to_user (filter (\<lambda>u. u_id u = i \<and> u_is_active u = 1) (users db)))"

text \<open>
  \<open>UserService.updateUser\<close> on an update whose \<open>name\<close>, \<open>email\<close> and \<open>role\<close> are
  \<open>undefined\<close>, as \<open>deactivateUser\<close> and \<open>activateUser\<close> call it: only the \<open>is_active\<close>
  branch can run.
\<close>

definition UserService_updateUser ::
  "database \<Rightarrow> env \<Rightarrow> nat \<Rightarrow> bool option \<Rightarrow> (error + user option) \<times> database" where
  "UserService_updateUser db e i upd_is_active =
     (case UserService_getUserById db i of
        None \<Rightarrow> (Inl User_not_found, db)
      | Some user \<Rightarrow>
          (case upd_is_active of
             None \<Rightarrow> (Inr (Some user), db)
           | Some b \<Rightarrow>
               let db' = db\<lparr> users :=
                              map (\<lambda>u. if u_id u = i
                                       then u\<lparr> u_is_active := (if b then 1 else 0),
                                               u_updated_at := now e \<rparr>
                                       else u) (users db) \<rparr>
               in (Inr (UserService_getUserById db' i), db')))"

definition deactivateUser :: "database \<Rightarrow> env \<Rightarrow> nat \<Rightarrow> (error + user option) \<times> database" where
  "deactivateUser db e i = UserService_updateUser db e i (Some False)"

definition activateUser :: "database \<Rightarrow> env \<Rightarrow> nat \<Rightarrow> (error + user option) \<times> database" where
  "activateUser db e i = UserService_updateUser db e i (Some True)"

section \<open>AuthService: registration\<close>

text \<open>\<open>UserRegistration\<close>; an empty string is the falsy value of a field.\<close>

record user_registration =
  reg_name :: string
  reg_email :: string
  reg_password :: string

text \<open>
  \<open>validateEmail\<close> tests \<open>/^[^\s@]+@[^\s@]+\.[^\s@]+$/\<close>: no white space, one \<open>@\<close>
  with a non-empty part before it, and after it a dot that is neither the first nor the
  last character.
\<close>

definition validateEmail :: "string \<Rightarrow> bool" where
  "validateEmail s =
     (let local_part = takeWhile (\<lambda>c. c \<noteq> CHR ''@'') s;
          domain = drop (Suc (length local_part)) s
      in local_part \<noteq> [] \<and> length local_part < length s \<and> CHR ''@'' \<notin> set domain
         \<and> \<not> list_ex (str_includes s) white_space \<and> CHR ''.'' \<in> set (tl (butlast domain)))"

text \<open>
  The \<open>INSERT INTO users (name, email, password_hash, role)\<close> of \<open>register\<close>: the
  statement does not name \<open>is_active\<close>, which takes the schema's default \<open>true\<close>, stored
  as the integer 1. The email is \<open>UNIQUE\<close>.
\<close>

definition insert_user ::
  "database \<Rightarrow> nat \<Rightarrow> string \<Rightarrow> string \<Rightarrow> string \<Rightarrow> string \<Rightarrow> error + nat \<times> database" where
  "insert_user db ts name mail hash role_name =
     (if role_name \<notin> set [''user'', ''admin''] then Inl Sqlite_check
      else if mail \<in> set (map u_email (users db)) then Inl Sqlite_unique
      else let rowid = next_rowid (seq_users db) (map u_id (users db)) in
        Inr (rowid,
             db\<lparr> users := users db @
                    [\<lparr> u_id = rowid, u_name = name, u_email = mail, u_password_hash = hash,
                       u_role = role_name, u_is_active = 1, u_created_at = ts,
                       u_updated_at = ts \<rparr>],
                 seq_users := rowid \<rparr>))"

text \<open>
  \<open>sanitizeUser\<close> drops \<open>password_hash\<close> from the object it is given and keeps the other
  fields as they are. \<open>register\<close> gives it the row as the store returned it, so
  \<open>su_is_active\<close> is the integer column.
\<close>

record sanitized_row =
  su_id :: nat
  su_name :: string
  su_email :: string
  su_role :: string
  su_is_active :: int
  su_created_at :: nat
  su_updated_at :: nat

definition sanitizeUser :: "user_row \<Rightarrow> sanitized_row" where
  "sanitizeUser u =
     \<lparr> su_id = u_id u, su_name = u_name u, su_email = u_email u, su_role = u_role u,
       su_is_active = u_is_active u, su_created_at = u_created_at u,
       su_updated_at = u_updated_at u \<rparr>"

record auth_response =
  ar_user :: sanitized_row
  ar_token :: string

text \<open>
  \<open>AuthService.register\<close>. \<open>bcrypt_hash\<close> stands for \<open>bcrypt.hash(_, SALT_ROUNDS)\<close> and
  \<open>jwt_sign\<close> for \<open>generateToken\<close> on the payload's user id, email and role.
\<close>

definition AuthService_register ::
  "(string \<Rightarrow> string) \<Rightarrow> (nat \<Rightarrow> string \<Rightarrow> string \<Rightarrow> string) \<Rightarrow> database \<Rightarrow> env
     \<Rightarrow> user_registration \<Rightarrow> (error + auth_response) \<times> database" where
  "AuthService_register bcrypt_hash jwt_sign db e userData =
     (let name = reg_name userData; mail = reg_email userData; password = reg_password userData
      in if name = [] \<or> mail = [] \<or> password = [] then (Inl Registration_required, db)
         else if \<not> validateEmail mail then (Inl Invalid_email_format, db)
         else if js_length password < 6 then (Inl Password_too_short, db)
         else if mail \<in> set (map u_email (users db)) then (Inl User_already_exists, db)
         else
           (case insert_user db (now e) name mail (bcrypt_hash password) ''user'' of
              Inl err \<Rightarrow> (Inl err, db)
            | Inr (uid, db') \<Rightarrow>
                (case first_row (filter (\<lambda>u. u_id u = uid) (users db')) of
                   None \<Rightarrow> (Inl Type_error, db')
                 | Some user \<Rightarrow>
                     (Inr \<lparr> ar_user = sanitizeUser user,
                            ar_token = jwt_sign (u_id user) (u_email user) (u_role user) \<rparr>,
                      db'))))"

section \<open>A scenario\<close>

text \<open>
  An administrator (user 11), two members (users 12 and 13), and one ticket (ticket 5)
  of user 12 with a public message, an internal note of the administrator and
  two attachments: the file of the first is on the disk and cannot be removed, the file
  of the second is missing.
\<close>

definition scenario_users :: "user_row list" where
  "scenario_users =
     [\<lparr> u_id = 11, u_name = ''Admin User'', u_email = ''admin@example.com'',
        u_password_hash = ''h1'', u_role = ''admin'', u_is_active = 1,
        u_created_at = 10, u_updated_at = 10 \<rparr>,
      \<lparr> u_id = 12, u_name = ''John Doe'', u_email = ''user@example.com'',
        u_password_hash = ''h2'', u_role = ''user'', u_is_active = 1,
        u_created_at = 10, u_updated_at = 10 \<rparr>,
      \<lparr> u_id = 13, u_name = ''Jane Roe'', u_email = ''jane@example.com'',
        u_password_hash = ''h3'', u_role = ''user'', u_is_active = 1,
        u_created_at = 20, u_updated_at = 20 \<rparr>]"

definition scenario_ticket :: ticket where
  "scenario_ticket =
     \<lparr> t_id = 5, ticket_number = ''TKT-2026-0042'', user_id = 12, title = ''Printer'',
       description = ''The printer is broken'', category = ''hardware'', priority = ''medium'',
       status = ''open'', assigned_to = None, created_at = 100, updated_at = 100 \<rparr>"

definition scenario_messages :: "message_row list" where
  "scenario_messages =
     [\<lparr> tm_id = 21, tm_ticket_id = 5, tm_user_id = 12, tm_message = ''Any news?'',
        tm_is_internal = 0, tm_created_at = 110 \<rparr>,
      \<lparr> tm_id = 22, tm_ticket_id = 5, tm_user_id = 11, tm_message = ''internal note'',
        tm_is_internal = 1, tm_created_at = 120 \<rparr>]"

definition scenario_attachments :: "attachment list" where
  "scenario_attachments =
     [\<lparr> a_id = 31, a_ticket_id = 5, original_filename = ''photo.png'',
        stored_filename = ''130-00aa.png'', file_path = ''uploads/130-00aa.png'',
        file_size = 3, mime_type = ''image/png'', uploaded_by = 12, uploaded_at = 130 \<rparr>,
      \<lparr> a_id = 32, a_ticket_id = 5, original_filename = ''log.txt'',
        stored_filename = ''140-00bb.txt'', file_path = ''uploads/140-00bb.txt'',
        file_size = 5, mime_type = ''text/plain'', uploaded_by = 12, uploaded_at = 140 \<rparr>]"

definition scenario_db :: database where
  "scenario_db =
     \<lparr> users = scenario_users, tickets = [scenario_ticket],
       ticket_messages = scenario_messages, attachments = scenario_attachments,
       seq_users = 13, seq_tickets = 5, seq_ticket_messages = 22, seq_attachments = 32 \<rparr>"

definition scenario_disk :: filesystem where
  "scenario_disk =
     \<lparr> files = [''uploads/130-00aa.png'' \<mapsto> ''PNG''],
       unlink_refused = {''uploads/130-00aa.png''} \<rparr>"

definition scenario_env :: env where
  "scenario_env =
     \<lparr> now = 200, date_now = 200000, full_year = 2026, random_num = 7,
       random_hex = ''0123456789abcdef'' \<rparr>"

text \<open>The same readings with the random number 42: the number of ticket 5 comes out again.\<close>

definition colliding_env :: env where
  "colliding_env = scenario_env\<lparr> random_num := 42 \<rparr>"

definition scenario_body :: create_body where
  "scenario_body =
     \<lparr> b_title = Some ''VPN'', b_description = Some ''Cannot connect'',
       b_category = Some ''network'', b_priority = None \<rparr>"

definition scenario_create :: ticket_create where
  "scenario_create =
     \<lparr> tc_title = Some ''VPN'', tc_description = Some ''Cannot connect'',
       tc_category = Some ''network'', tc_priority = ''medium'' \<rparr>"

text \<open>Three creations in the year 2026, whose random numbers are 7, 8 and 9.\<close>

definition three_calls :: "(env \<times> nat \<times> ticket_create) list" where
  "three_calls =
     [(scenario_env, 12, scenario_create),
      (scenario_env\<lparr> random_num := 8 \<rparr>, 13, scenario_create),
      (scenario_env\<lparr> random_num := 9 \<rparr>, 12, scenario_create)]"

definition scenario_registration :: user_registration where
  "scenario_registration =
     \<lparr> reg_name = ''New User'', reg_email = ''new@example.com'', reg_password = ''secret1'' \<rparr>"

text \<open>A PDF of exactly 5 MiB.\<close>

definition five_mib_file :: multer_file where
  "five_mib_file =
     \<lparr> originalname = ''scan.pdf'', mimetype = ''application/pdf'', size_bytes = 5242880,
       buffer = replicate 5242880 (CHR ''x'') \<rparr>"

definition admin :: auth_user where
  "admin = \<lparr> userId = 11, email = ''admin@example.com'', role = Admin \<rparr>"

definition member_a :: auth_user where
  "member_a = \<lparr> userId = 12, email = ''user@example.com'', role = User \<rparr>"

definition member_b :: auth_user where
  "member_b = \<lparr> userId = 13, email = ''jane@example.com'', role = User \<rparr>"

lemmas scenario_defs =
  scenario_users_def scenario_ticket_def scenario_messages_def scenario_attachments_def
  scenario_db_def scenario_disk_def scenario_env_def admin_def member_a_def member_b_def

lemmas trim_eval = trim_def trimStart_def trimEnd_def strip.simps leading_def white_space_def

section \<open>Facts about the store\<close>

lemma fold_max_ge_seq: "(s::nat) \<le> fold max ids s"
  by (induction ids arbitrary: s) (auto intro: order_trans [OF max.cobounded2])

lemma fold_max_ge_elem: "x \<in> set ids \<Longrightarrow> (x::nat) \<le> fold max ids s"
proof (induction ids arbitrary: s)
  case Nil
  then show ?case by simp
next
  case (Cons a ids)
  show ?case
  proof (cases "x = a")
    case True
    have "a \<le> max a s" by simp
    also have "\<dots> \<le> fold max ids (max a s)" by (rule fold_max_ge_seq)
    finally show ?thesis using True by simp
  next
    case False
    with Cons show ?thesis by simp
  qed
qed

text \<open>A new row id is not the id of any row of the table.\<close>

lemma next_rowid_fresh: "next_rowid s ids \<notin> set ids"
  using fold_max_ge_elem [of "next_rowid s ids" ids s] by (auto simp: next_rowid_def)

text \<open>Ordering a result keeps its rows, and commutes with a \<open>WHERE\<close> clause.\<close>

lemma set_order_desc [simp]: "set (order_desc f xs) = set xs"
  by (simp add: order_desc_def)

lemma order_desc_Nil [simp]: "order_desc f [] = []"
  by (simp add: order_desc_def)

lemma order_desc_single [simp]: "order_desc f [x] = [x]"
  by (simp add: order_desc_def)

lemma filter_order_desc: "filter P (order_desc f xs) = order_desc f (filter P xs)"
  by (simp add: order_desc_def filter_sort)

lemma first_row_Some_mem: "first_row xs = Some x \<Longrightarrow> x \<in> set xs"
  by (cases xs) auto

lemma first_row_None: "(first_row xs = None) = (xs = [])"
  by (cases xs) auto

lemma set_join_users:
  "set (join_users db rows) =
     {to_ticket_message tm u | tm u.
        tm \<in> set rows \<and> u \<in> set (users db) \<and> u_id u = tm_user_id tm}"
  by (auto simp: join_users_def)

lemma to_ticket_message_sel:
  "msg_id (to_ticket_message row u) = tm_id row"
  "is_internal (to_ticket_message row u) = (tm_is_internal row \<noteq> 0)"
  "msg_ticket_id (to_ticket_message row u) = tm_ticket_id row"
  "msg_user_id (to_ticket_message row u) = tm_user_id row"
  by (simp_all add: to_ticket_message_def Boolean_def)

lemma errorHandler_not_success [simp]:
  "res_status (errorHandler err) \<noteq> 200" "res_status (errorHandler err) \<noteq> 201"
  by (simp_all add: errorHandler_def Let_def)

lemma insert_message_Inr:
  assumes "insert_message db ts ticketId uid body flag = Inr (rowid, db')"
  shows "ticket_messages db' = ticket_messages db @
            [\<lparr> tm_id = rowid, tm_ticket_id = ticketId, tm_user_id = uid,
               tm_message = body, tm_is_internal = flag, tm_created_at = ts \<rparr>]
         \<and> rowid \<notin> set (map tm_id (ticket_messages db))
         \<and> users db' = users db \<and> tickets db' = tickets db \<and> attachments db' = attachments db
         \<and> ticketId \<in> set (map t_id (tickets db)) \<and> uid \<in> set (map u_id (users db))"
proof -
  from assms have rid: "rowid = next_rowid (seq_ticket_messages db) (map tm_id (ticket_messages db))"
    by (simp add: insert_message_def Let_def split: if_splits)
  have "rowid \<notin> set (map tm_id (ticket_messages db))"
    unfolding rid by (rule next_rowid_fresh)
  with assms show ?thesis
    by (auto simp: insert_message_def Let_def split: if_splits)
qed

text \<open>Reading a message back by the id its insert returned finds the inserted row.\<close>

lemma getMessageById_after_insert:
  assumes tms: "ticket_messages db' = ticket_messages db @ [row]"
    and fresh: "tm_id row \<notin> set (map tm_id (ticket_messages db))"
    and uid: "tm_user_id row \<in> set (map u_id (users db'))"
  shows "\<exists>u\<in>set (users db'). u_id u = tm_user_id row \<and>
           getMessageById db' (tm_id row) = Some (to_ticket_message row u)"
proof -
  have old: "filter (\<lambda>tm. tm_id tm = tm_id row) (ticket_messages db) = []"
    using fresh by (auto simp: filter_empty_conv intro: rev_image_eqI)
  have eq: "getMessageById db' (tm_id row) =
          first_row (map (to_ticket_message row)
                       (filter (\<lambda>u. u_id u = tm_user_id row) (users db')))"
    by (simp add: getMessageById_def tms old join_users_def)
  from uid have "filter (\<lambda>u. u_id u = tm_user_id row) (users db') \<noteq> []"
    by (auto simp: filter_empty_conv)
  then obtain u us where f: "filter (\<lambda>u. u_id u = tm_user_id row) (users db') = u # us"
    by (cases "filter (\<lambda>u. u_id u = tm_user_id row) (users db')") auto
  then have "u \<in> set (filter (\<lambda>u. u_id u = tm_user_id row) (users db'))" by simp
  then have "u \<in> set (users db')" "u_id u = tm_user_id row" by auto
  moreover have "getMessageById db' (tm_id row) = Some (to_ticket_message row u)"
    by (simp add: eq f)
  ultimately show ?thesis by blast
qed

text \<open>What a successful \<open>TicketService.addMessage\<close> has done.\<close>

lemma addMessage_Inr:
  assumes "TicketService_addMessage db e ticketId uid md = (Inr r, db')"
  shows "\<exists>row u. r = Some (to_ticket_message row u) \<and> u \<in> set (users db') \<and> u_id u = uid \<and>
           ticket_messages db' = ticket_messages db @ [row] \<and>
           tm_id row \<notin> set (map tm_id (ticket_messages db)) \<and>
           tm_ticket_id row = ticketId \<and> tm_user_id row = uid \<and>
           tm_message row = trim (tmc_message md) \<and>
           tm_is_internal row =
             (if (case tmc_is_internal md of None \<Rightarrow> False | Some b \<Rightarrow> b) then 1 else 0) \<and>
           users db' = users db \<and> tickets db' = tickets db \<and> attachments db' = attachments db"
proof -
  let ?flag = "if (case tmc_is_internal md of None \<Rightarrow> False | Some b \<Rightarrow> b) then 1 else (0::int)"
  from assms obtain rowid where
    ins: "insert_message db (now e) ticketId uid (trim (tmc_message md)) ?flag = Inr (rowid, db')"
    and r: "r = getMessageById db' rowid"
    unfolding TicketService_addMessage_def Let_def
    by (auto split: if_splits option.splits sum.splits)
  let ?row = "\<lparr> tm_id = rowid, tm_ticket_id = ticketId, tm_user_id = uid,
               tm_message = trim (tmc_message md), tm_is_internal = ?flag,
               tm_created_at = now e \<rparr>"
  note facts = insert_message_Inr [OF ins]
  have "\<exists>u\<in>set (users db'). u_id u = tm_user_id ?row \<and>
           getMessageById db' (tm_id ?row) = Some (to_ticket_message ?row u)"
    by (rule getMessageById_after_insert [where db = db]) (use facts in simp_all)
  then obtain u where "u \<in> set (users db')" "u_id u = uid"
      "getMessageById db' rowid = Some (to_ticket_message ?row u)"
    by auto
  with facts r show ?thesis
    by (intro exI [of _ ?row] exI [of _ u]) simp
qed

section \<open>Facts about trimming\<close>

lemma startsWith_append: "startsWith s w \<Longrightarrow> startsWith (s @ x) w"
  by (induction s w rule: startsWith.induct) auto

lemma leading_zero_iff:
  "(leading ws s = 0) = (\<forall>w\<in>set ws. w \<noteq> [] \<longrightarrow> \<not> startsWith s w)"
  by (auto simp: leading_def find_None_iff find_Some_iff split: option.splits)

lemma leading_prefix: "leading ws (t @ x) = 0 \<Longrightarrow> leading ws t = 0"
  unfolding leading_zero_iff by (blast dest: startsWith_append)

lemma strip_id: "leading ws s = 0 \<Longrightarrow> strip ws s = s"
  by (subst strip.simps) simp

lemma leading_strip: "leading ws (strip ws s) = 0"
  by (induction ws s rule: strip.induct) (subst strip.simps, simp)

text \<open>What is stripped is a prefix: the result is a suffix of the string.\<close>

lemma strip_suffix: "\<exists>p. s = p @ strip ws s"
proof (induction ws s rule: strip.induct)
  case (1 ws s)
  show ?case
  proof (cases "leading ws s = 0")
    case True
    then show ?thesis by (simp add: strip_id)
  next
    case False
    from 1 [OF False] obtain p where
      p: "drop (leading ws s) s = p @ strip ws (drop (leading ws s) s)"
      by blast
    have eq: "strip ws s = strip ws (drop (leading ws s) s)"
      using False by (subst strip.simps) simp
    have "s = take (leading ws s) s @ drop (leading ws s) s" by simp
    also have "\<dots> = (take (leading ws s) s @ p) @ strip ws s"
      using p eq by simp
    finally show ?thesis by blast
  qed
qed

text \<open>
  A trimmed string has no white space left at either end: trimming it again changes
  nothing. The controller trims the message and the service trims what it is given.
\<close>

lemma trim_idem: "trim (trim s) = trim s"
proof -
  let ?a = "strip white_space s"
  let ?rw = "map rev white_space"
  let ?b = "strip ?rw (rev ?a)"
  have t: "trim s = rev ?b" by (simp add: trim_def trimStart_def trimEnd_def)
  obtain p where p: "rev ?a = p @ ?b" using strip_suffix by blast
  then have a: "?a = rev ?b @ rev p" by (metis rev_append rev_rev_ident)
  have "leading white_space ?a = 0" by (rule leading_strip)
  then have "leading white_space (rev ?b) = 0" using a leading_prefix by metis
  then have s1: "strip white_space (rev ?b) = rev ?b" by (rule strip_id)
  have "leading ?rw ?b = 0" by (rule leading_strip)
  then have s2: "strip ?rw ?b = ?b" by (rule strip_id)
  show ?thesis unfolding t by (simp add: trim_def trimStart_def trimEnd_def s1 s2)
qed

lemma trim_Nil: "trim [] = []"
  by (simp add: trim_eval)

text \<open>
  The controller lets a message through exactly when it is a string that is not empty
  once trimmed.
\<close>

lemma message_content_Some:
  "(message_content j = Some s) = (j = JStr s \<and> trim s \<noteq> [])"
  by (cases j) (auto simp: trim_Nil)

lemma getTicketById_Some_id:
  "getTicketById db i = Some t \<Longrightarrow> i \<in> set (map t_id (tickets db))"
  by (auto simp: getTicketById_def dest!: first_row_Some_mem)

text \<open>
  \<open>TicketService.addMessage\<close> succeeds on a trimmed message that is not empty, for an
  existing ticket and an author who has a row in \<open>users\<close>.
\<close>

lemma addMessage_succeeds:
  assumes "getTicketById db ticketId = Some t" and "trim msg \<noteq> []"
    and "uid \<in> set (map u_id (users db))"
  shows "\<exists>r db'. TicketService_addMessage db e ticketId uid
                    \<lparr> tmc_message = trim msg, tmc_is_internal = Some b \<rparr> = (Inr r, db')"
  using assms getTicketById_Some_id [OF assms(1)]
  by (simp add: TicketService_addMessage_def insert_message_def trim_idem Let_def)

section \<open>Facts about the scenario\<close>

lemma scenario_getTicketById: "getTicketById scenario_db 5 = Some scenario_ticket"
  by (simp add: getTicketById_def scenario_db_def scenario_ticket_def)

section \<open>Visibility resolution on append\<close>

text \<open>
  Claim C3. \<open>POST /tickets/:id/messages\<close> appends a message (status 201) exactly when
  the ticket exists, the body's message is a string that is not empty once trimmed, the
  author is an administrator or the ticket's creator, and the author has a row in
  \<open>users\<close>. Whenever it does, the answer carries the new message and one row has been
  added to \<open>ticket_messages\<close>, for this ticket and this author, with the trimmed
  message; its \<open>is_internal\<close> column is 1 if and only if the author's role is
  administrator and the request's \<open>is_internal\<close> is \<open>true\<close>, \<open>'true'\<close> or \<open>1\<close>, and is 0
  otherwise; the returned message carries the same value. In particular a message of a
  member is appended, and is stored public whatever the request's flag says.
\<close>

theorem addMessage_visibility_resolution:
  fixes db :: database and e :: env and u :: auth_user and ticketId :: nat
    and body_message body_is_internal :: json
  defines "X \<equiv> TicketController_addMessage db e (Some u) ticketId body_message body_is_internal"
    and "internal \<equiv> (role u = Admin \<and> body_is_internal \<in> {JBool True, JStr ''true'', JNum 1})"
  shows "(res_status (fst X) = 201) =
           (\<exists>t s. getTicketById db ticketId = Some t \<and> body_message = JStr s \<and> trim s \<noteq> [] \<and>
                  (role u = Admin \<or> user_id t = userId u) \<and>
                  userId u \<in> set (map u_id (users db)))
    \<and> (res_status (fst X) = 201 \<longrightarrow>
         (\<exists>m row s. fst X = Response 201 (Some m) ''Message added successfully'' \<and>
            ticket_messages (snd X) = ticket_messages db @ [row] \<and>
            body_message = JStr s \<and> tm_message row = trim s \<and>
            tm_ticket_id row = ticketId \<and> tm_user_id row = userId u \<and>
            msg_id m = tm_id row \<and> tm_is_internal row \<in> {0, 1} \<and>
            (tm_is_internal row = 1) = internal \<and> is_internal m = internal \<and>
            (role u = User \<longrightarrow> tm_is_internal row = 0 \<and> \<not> is_internal m)))"
proof -
  let ?b = "role u = Admin \<and>
      requests_internal (if body_is_internal = JUndefined then JBool False else body_is_internal)"
  have b: "?b = internal"
    by (auto simp: requests_internal_def internal_def)
  let ?P = "\<exists>t s. getTicketById db ticketId = Some t \<and> body_message = JStr s \<and> trim s \<noteq> [] \<and>
                  (role u = Admin \<or> user_id t = userId u) \<and>
                  userId u \<in> set (map u_id (users db))"
  have produced: "res_status (fst X) = 201" if ?P
  proof -
    from that obtain t s where t: "getTicketById db ticketId = Some t"
      and s: "body_message = JStr s" "trim s \<noteq> []"
      and own: "role u = Admin \<or> user_id t = userId u"
      and row: "userId u \<in> set (map u_id (users db))"
      by blast
    from addMessage_succeeds [OF t s(2) row] obtain r db' where
      "TicketService_addMessage db e ticketId (userId u)
         \<lparr> tmc_message = trim s, tmc_is_internal = Some ?b \<rparr> = (Inr r, db')"
      by blast
    moreover have "message_content body_message = Some s"
      using s by (simp only: message_content_Some) simp
    ultimately show ?thesis
      unfolding X_def TicketController_addMessage_def Let_def
      using t own by auto
  qed
  have appended: "?P \<and> (\<exists>m row s. fst X = Response 201 (Some m) ''Message added successfully'' \<and>
            ticket_messages (snd X) = ticket_messages db @ [row] \<and>
            body_message = JStr s \<and> tm_message row = trim s \<and>
            tm_ticket_id row = ticketId \<and> tm_user_id row = userId u \<and>
            msg_id m = tm_id row \<and> tm_is_internal row \<in> {0, 1} \<and>
            (tm_is_internal row = 1) = internal \<and> is_internal m = internal \<and>
            (role u = User \<longrightarrow> tm_is_internal row = 0 \<and> \<not> is_internal m))"
    if st: "res_status (fst X) = 201"
  proof -
    obtain res db' where X: "X = (res, db')" by (cases X)
    with st have "res_status res = 201" by simp
    with X obtain message t r where
      content: "message_content body_message = Some message"
      and t: "getTicketById db ticketId = Some t"
      and own: "role u = Admin \<or> user_id t = userId u"
      and svc: "TicketService_addMessage db e ticketId (userId u)
            \<lparr> tmc_message = trim message, tmc_is_internal = Some ?b \<rparr> = (Inr r, db')"
      and res: "res = Response 201 r ''Message added successfully''"
      unfolding X_def TicketController_addMessage_def Let_def
      by (auto split: option.splits if_splits sum.splits prod.splits)
    from content have s: "body_message = JStr message" "trim message \<noteq> []"
      by (simp_all add: message_content_Some)
    from addMessage_Inr [OF svc] obtain row v where
      r: "r = Some (to_ticket_message row v)"
      and v: "v \<in> set (users db')" "u_id v = userId u" "users db' = users db"
      and tms: "ticket_messages db' = ticket_messages db @ [row]"
      and row: "tm_ticket_id row = ticketId" "tm_user_id row = userId u"
        "tm_message row = trim message"
        "tm_is_internal row = (if ?b then 1 else 0)"
      by (auto simp: trim_idem)
    from v have "userId u \<in> set (map u_id (users db))" by (auto intro: rev_image_eqI)
    with t s own have ?P by blast
    moreover have "\<exists>m row s. fst X = Response 201 (Some m) ''Message added successfully'' \<and>
            ticket_messages (snd X) = ticket_messages db @ [row] \<and>
            body_message = JStr s \<and> tm_message row = trim s \<and>
            tm_ticket_id row = ticketId \<and> tm_user_id row = userId u \<and>
            msg_id m = tm_id row \<and> tm_is_internal row \<in> {0, 1} \<and>
            (tm_is_internal row = 1) = internal \<and> is_internal m = internal \<and>
            (role u = User \<longrightarrow> tm_is_internal row = 0 \<and> \<not> is_internal m)"
      using X res r tms s row unfolding b
      by (intro exI [of _ "to_ticket_message row v"] exI [of _ row] exI [of _ message])
         (cases "role u"; simp add: to_ticket_message_sel internal_def)
    ultimately show ?thesis by blast
  qed
  from produced appended show ?thesis by blast
qed


theorem addMessage_visibility_resolution_witness:
  "(\<exists>m row. fst (TicketController_addMessage scenario_db scenario_env (Some admin) 5
                    (JStr ''internal note'') (JBool True))
               = Response 201 (Some m) ''Message added successfully'' \<and>
       ticket_messages (snd (TicketController_addMessage scenario_db scenario_env (Some admin) 5
                    (JStr ''internal note'') (JBool True)))
         = ticket_messages scenario_db @ [row] \<and>
       tm_message row = ''internal note'' \<and> tm_user_id row = 11 \<and>
       tm_is_internal row = 1 \<and> is_internal m) \<and>
   (\<exists>m row. fst (TicketController_addMessage scenario_db scenario_env (Some member_a) 5
                    (JStr '' it jams again '') (JBool True))
               = Response 201 (Some m) ''Message added successfully'' \<and>
       ticket_messages (snd (TicketController_addMessage scenario_db scenario_env (Some member_a) 5
                    (JStr '' it jams again '') (JBool True)))
         = ticket_messages scenario_db @ [row] \<and>
       tm_message row = ''it jams again'' \<and> tm_user_id row = 12 \<and>
       tm_is_internal row = 0 \<and> \<not> is_internal m)"
proof -
  have trimmed: "trim ''internal note'' = ''internal note''"
    "trim '' it jams again '' = ''it jams again''"
    by (simp_all add: trim_eval)
  have callers: "role admin = Admin" "userId admin = 11" "role member_a = User"
    "userId member_a = 12" "user_id scenario_ticket = 12"
    "u_id ` set (users scenario_db) = {11, 12, 13}"
    by (auto simp: scenario_defs)
  from addMessage_visibility_resolution [where db = scenario_db and e = scenario_env
         and u = admin and ticketId = 5 and body_message = "JStr ''internal note''"
         and body_is_internal = "JBool True"]
  have a: "\<exists>m row. fst (TicketController_addMessage scenario_db scenario_env (Some admin) 5
                    (JStr ''internal note'') (JBool True))
               = Response 201 (Some m) ''Message added successfully'' \<and>
       ticket_messages (snd (TicketController_addMessage scenario_db scenario_env (Some admin) 5
                    (JStr ''internal note'') (JBool True)))
         = ticket_messages scenario_db @ [row] \<and>
       tm_message row = ''internal note'' \<and> tm_user_id row = 11 \<and>
       tm_is_internal row = 1 \<and> is_internal m"
    by (simp add: scenario_getTicketById trimmed callers) blast
  from addMessage_visibility_resolution [where db = scenario_db and e = scenario_env
         and u = member_a and ticketId = 5 and body_message = "JStr '' it jams again ''"
         and body_is_internal = "JBool True"]
  have m: "\<exists>m row. fst (TicketController_addMessage scenario_db scenario_env (Some member_a) 5
                    (JStr '' it jams again '') (JBool True))
               = Response 201 (Some m) ''Message added successfully'' \<and>
       ticket_messages (snd (TicketController_addMessage scenario_db scenario_env (Some member_a) 5
                    (JStr '' it jams again '') (JBool True)))
         = ticket_messages scenario_db @ [row] \<and>
       tm_message row = ''it jams again'' \<and> tm_user_id row = 12 \<and>
       tm_is_internal row = 0 \<and> \<not> is_internal m"
    by (simp add: scenario_getTicketById trimmed callers) blast
  from a m show ?thesis by (rule conjI)
qed

section \<open>Booleans at the persistence boundary\<close>

lemma getTicketMessages_read:
  "m \<in> set (getTicketMessages db t) \<Longrightarrow>
     \<exists>row\<in>set (ticket_messages db). tm_ticket_id row = t \<and> msg_id m = tm_id row \<and>
        is_internal m = (tm_is_internal row \<noteq> 0)"
  by (auto simp: getTicketMessages_def set_join_users to_ticket_message_sel)

lemma getMessageById_read:
  assumes "getMessageById db i = Some m"
  shows "\<exists>row\<in>set (ticket_messages db). tm_id row = i \<and> msg_id m = i \<and>
        is_internal m = (tm_is_internal row \<noteq> 0)"
proof -
  from assms have "m \<in> set (join_users db (filter (\<lambda>tm. tm_id tm = i) (ticket_messages db)))"
    unfolding getMessageById_def by (rule first_row_Some_mem)
  then show ?thesis by (auto simp: set_join_users to_ticket_message_sel)
qed

lemma getTicketMessages_mem:
  "row \<in> set (ticket_messages db) \<Longrightarrow> tm_ticket_id row = t \<Longrightarrow> u \<in> set (users db) \<Longrightarrow>
   u_id u = tm_user_id row \<Longrightarrow> to_ticket_message row u \<in> set (getTicketMessages db t)"
  by (auto simp: getTicketMessages_def set_join_users)

lemma to_user_sel:
  "usr_id (to_user u) = u_id u" "is_active (to_user u) = (u_is_active u \<noteq> 0)"
  by (simp_all add: to_user_def Boolean_def)

lemma updateUser_Inr:
  assumes "UserService_updateUser db e i (Some b) = (Inr r, db')"
  shows "(\<exists>usr. r = Some usr \<and> usr_id usr = i \<and> is_active usr = b) \<and>
         users db' = map (\<lambda>u. if u_id u = i
                                then u\<lparr> u_is_active := (if b then 1 else 0), u_updated_at := now e \<rparr>
                                else u) (users db)"
proof -
  let ?f = "\<lambda>u. if u_id u = i then u\<lparr> u_is_active := (if b then 1 else 0), u_updated_at := now e \<rparr>
                 else u"
  from assms obtain usr0 where old: "UserService_getUserById db i = Some usr0"
    and db': "db' = db\<lparr> users := map ?f (users db) \<rparr>"
    and r: "r = UserService_getUserById db' i"
    unfolding UserService_updateUser_def Let_def
    by (auto split: option.splits)
  have filt: "filter (\<lambda>u. u_id u = i) (map ?f (users db))
                = map (\<lambda>u. u\<lparr> u_is_active := (if b then 1 else 0), u_updated_at := now e \<rparr>)
                    (filter (\<lambda>u. u_id u = i) (users db))"
    by (induction "users db" arbitrary: db) (auto simp: filter_map comp_def)
  from old have "filter (\<lambda>u. u_id u = i) (users db) \<noteq> []"
    by (cases "filter (\<lambda>u. u_id u = i) (users db)") (simp_all add: UserService_getUserById_def)
  then obtain u us where f: "filter (\<lambda>u. u_id u = i) (users db) = u # us"
    by (cases "filter (\<lambda>u. u_id u = i) (users db)") auto
  then have "u \<in> set (filter (\<lambda>u. u_id u = i) (users db))" by simp
  then have ui: "u_id u = i" by simp
  have "r = Some (to_user (u\<lparr> u_is_active := (if b then 1 else 0), u_updated_at := now e \<rparr>))"
    by (simp add: r UserService_getUserById_def db' filt f)
  with ui db' show ?thesis by (simp add: to_user_sel)
qed


lemma scenario_addMessage_service:
  "\<exists>r db'. TicketService_addMessage scenario_db scenario_env 5 11
               \<lparr> tmc_message = ''internal note'', tmc_is_internal = Some True \<rparr> = (Inr r, db')"
proof -
  have trimmed: "trim ''internal note'' = ''internal note''"
    by (simp add: trim_eval)
  have ins: "\<exists>db'. insert_message scenario_db 200 5 11 ''internal note'' 1 = Inr (23, db')"
    by (simp add: scenario_defs insert_message_def next_rowid_def Let_def)
  then show ?thesis
    unfolding TicketService_addMessage_def
    by (auto simp add: trimmed scenario_getTicketById scenario_env_def)
qed

lemma scenario_deactivate:
  "\<exists>r db'. UserService_updateUser scenario_db scenario_env 13 (Some False) = (Inr r, db')"
  by (simp add: UserService_updateUser_def UserService_getUserById_def scenario_db_def
        scenario_users_def)

text \<open>
  What holds of the round trip of claim C1. \<open>TicketService.addMessage\<close> writes the
  resolved visibility flag as the integer 1 (internal) or 0 (public); both readers,
  \<open>getMessageById\<close> and \<open>getTicketMessages\<close>, turn the stored integer into a boolean, so
  the message returned by the append and the entry of the thread with its id carry the
  boolean resolved at append time. \<open>UserService.updateUser\<close> writes the active flag as 1
  or 0 and the readers of \<open>UserService\<close> return it as the boolean that was written.
\<close>

theorem boolean_round_trip:
  fixes md :: ticket_message_create
  defines "flag \<equiv> (case tmc_is_internal md of None \<Rightarrow> False | Some f \<Rightarrow> f)"
  shows
  "(TicketService_addMessage db e ticketId uid md = (Inr r, db') \<longrightarrow>
      (\<exists>m row. r = Some m \<and> ticket_messages db' = ticket_messages db @ [row] \<and>
         msg_id m = tm_id row \<and>
         tm_is_internal row = (if flag then 1 else 0) \<and> is_internal m = flag \<and>
         (\<exists>m'\<in>set (getTicketMessages db' ticketId). msg_id m' = tm_id row) \<and>
         (\<forall>m'\<in>set (getTicketMessages db' ticketId).
             msg_id m' = tm_id row \<longrightarrow> is_internal m' = flag)))
   \<and> (\<forall>m\<in>set (getTicketMessages db ticketId).
         \<exists>row\<in>set (ticket_messages db).
            msg_id m = tm_id row \<and> is_internal m = (tm_is_internal row \<noteq> 0))
   \<and> (\<forall>i m0. getMessageById db i = Some m0 \<longrightarrow>
         (\<exists>row\<in>set (ticket_messages db).
            tm_id row = i \<and> is_internal m0 = (tm_is_internal row \<noteq> 0)))
   \<and> (UserService_updateUser db e j (Some b) = (Inr ru, dbu) \<longrightarrow>
         (\<exists>usr. ru = Some usr \<and> is_active usr = b) \<and>
         (\<forall>row\<in>set (users dbu). u_id row = j \<longrightarrow> u_is_active row = (if b then 1 else 0)) \<and>
         (\<forall>usr\<in>set (UserService_getAllUsers dbu). usr_id usr = j \<longrightarrow> is_active usr = b))"
proof (intro conjI impI allI)
  assume a: "TicketService_addMessage db e ticketId uid md = (Inr r, db')"
  from addMessage_Inr [OF a] obtain row u where
    r: "r = Some (to_ticket_message row u)" and u: "u \<in> set (users db')" "u_id u = uid"
    and tms: "ticket_messages db' = ticket_messages db @ [row]"
    and fresh: "tm_id row \<notin> set (map tm_id (ticket_messages db))"
    and row: "tm_ticket_id row = ticketId" "tm_user_id row = uid"
      "tm_is_internal row = (if flag then 1 else 0)"
    unfolding flag_def by blast
  have mem: "to_ticket_message row u \<in> set (getTicketMessages db' ticketId)"
    by (rule getTicketMessages_mem) (simp_all add: tms row u)
  have all: "is_internal m' = flag"
    if "m' \<in> set (getTicketMessages db' ticketId)" "msg_id m' = tm_id row" for m'
  proof -
    from getTicketMessages_read [OF that(1)] obtain row' where
      row': "row' \<in> set (ticket_messages db')" "msg_id m' = tm_id row'"
        "is_internal m' = (tm_is_internal row' \<noteq> 0)"
      by blast
    have "x \<noteq> row'" if "x \<in> set (ticket_messages db)" for x
      using fresh that row'(2) \<open>msg_id m' = tm_id row\<close> by (metis image_eqI set_map)
    with row'(1) tms have "row' = row" by auto
    with row'(3) row(3) show ?thesis by simp
  qed
  show "\<exists>m row. r = Some m \<and> ticket_messages db' = ticket_messages db @ [row] \<and>
         msg_id m = tm_id row \<and>
         tm_is_internal row = (if flag then 1 else 0) \<and> is_internal m = flag \<and>
         (\<exists>m'\<in>set (getTicketMessages db' ticketId). msg_id m' = tm_id row) \<and>
         (\<forall>m'\<in>set (getTicketMessages db' ticketId).
             msg_id m' = tm_id row \<longrightarrow> is_internal m' = flag)"
  proof (intro exI [of _ "to_ticket_message row u"] exI [of _ row] conjI)
    show "\<exists>m'\<in>set (getTicketMessages db' ticketId). msg_id m' = tm_id row"
      by (rule bexI [OF _ mem]) (simp add: to_ticket_message_sel)
    show "\<forall>m'\<in>set (getTicketMessages db' ticketId).
             msg_id m' = tm_id row \<longrightarrow> is_internal m' = flag"
      using all by blast
  qed (simp_all add: r tms row to_ticket_message_sel)
next
  show "\<forall>m\<in>set (getTicketMessages db ticketId).
         \<exists>row\<in>set (ticket_messages db).
            msg_id m = tm_id row \<and> is_internal m = (tm_is_internal row \<noteq> 0)"
    using getTicketMessages_read by blast
next
  fix i m0
  assume "getMessageById db i = Some m0"
  from getMessageById_read [OF this]
  show "\<exists>row\<in>set (ticket_messages db).
            tm_id row = i \<and> is_internal m0 = (tm_is_internal row \<noteq> 0)"
    by blast
next
  assume a: "UserService_updateUser db e j (Some b) = (Inr ru, dbu)"
  note upd = updateUser_Inr [OF a]
  from upd show "\<exists>usr. ru = Some usr \<and> is_active usr = b" by blast
  from upd show "\<forall>row\<in>set (users dbu). u_id row = j \<longrightarrow> u_is_active row = (if b then 1 else 0)"
    by auto
  then show "\<forall>usr\<in>set (UserService_getAllUsers dbu). usr_id usr = j \<longrightarrow> is_active usr = b"
    by (auto simp: UserService_getAllUsers_def to_user_sel)
qed

theorem boolean_round_trip_witness:
  "(\<exists>r db'. TicketService_addMessage scenario_db scenario_env 5 11
               \<lparr> tmc_message = ''internal note'', tmc_is_internal = Some True \<rparr> = (Inr r, db') \<and>
       (\<exists>m row. r = Some m \<and> ticket_messages db' = ticket_messages scenario_db @ [row] \<and>
           tm_is_internal row = 1 \<and> is_internal m))
   \<and> (\<exists>ru dbu. UserService_updateUser scenario_db scenario_env 13 (Some False) = (Inr ru, dbu) \<and>
         (\<exists>usr. ru = Some usr \<and> \<not> is_active usr))"
proof -
  from scenario_addMessage_service obtain r db' where
    a: "TicketService_addMessage scenario_db scenario_env 5 11
               \<lparr> tmc_message = ''internal note'', tmc_is_internal = Some True \<rparr> = (Inr r, db')"
    by blast
  from scenario_deactivate obtain ru dbu where
    b: "UserService_updateUser scenario_db scenario_env 13 (Some False) = (Inr ru, dbu)"
    by blast
  from boolean_round_trip [where db = scenario_db and e = scenario_env and ticketId = 5
         and uid = 11 and r = r and db' = db' and j = 13 and b = False and ru = ru and dbu = dbu
         and md = "\<lparr> tmc_message = ''internal note'', tmc_is_internal = Some True \<rparr>"] a b
  show ?thesis by auto
qed

lemma scenario_validateEmail: "validateEmail ''new@example.com''"
  by (simp add: validateEmail_def white_space_def)

lemma scenario_insert_user:
  "insert_user scenario_db 200 ''New User'' ''new@example.com'' ''$2b$12$hash'' ''user'' =
     Inr (14, scenario_db\<lparr> users := users scenario_db @
                    [\<lparr> u_id = 14, u_name = ''New User'', u_email = ''new@example.com'',
                       u_password_hash = ''$2b$12$hash'',
                       u_role = ''user'', u_is_active = 1, u_created_at = 200,
                       u_updated_at = 200 \<rparr>],
                 seq_users := 14 \<rparr>)"
  by (simp add: insert_user_def next_rowid_def scenario_db_def scenario_users_def Let_def)

text \<open>
  Claim C1 says that the account's active flag, like the visibility flag, is read as a
  boolean on every read path. In the scenario a new user registers: \<open>AuthService.register\<close>
  reads the new row back and returns it through \<open>sanitizeUser\<close> with no conversion, so the
  \<open>is_active\<close> of the returned user is the stored integer 1, where the readers of
  \<open>UserService\<close> return \<open>true\<close> for the same row.
\<close>

theorem register_returns_integer_active_flag:
  "(case AuthService_register (\<lambda>p. ''$2b$12$hash'') (\<lambda>i m r. ''jwt'') scenario_db scenario_env
           scenario_registration of
      (Inr r, db') \<Rightarrow>
        su_id (ar_user r) = 14 \<and> su_is_active (ar_user r) = 1 \<and>
        map_option is_active (UserService_getUserById db' 14) = Some True
    | (Inl err, db') \<Rightarrow> False)"
proof -
  have new: "''new@example.com'' \<notin> u_email ` set (users scenario_db)"
    by (simp add: scenario_db_def scenario_users_def)
  have row: "filter (\<lambda>u. u_id u = 14) (users scenario_db) = []"
    by (simp add: scenario_db_def scenario_users_def)
  show ?thesis
    unfolding AuthService_register_def
    by (simp add: scenario_registration_def scenario_validateEmail new Let_def js_length_def)
       (simp add: scenario_env_def scenario_insert_user row sanitizeUser_def
          UserService_getUserById_def to_user_def Boolean_def)
qed

section \<open>Internal messages and the member's views\<close>

lemma scenario_thread:
  "map (\<lambda>m. (msg_id m, is_internal m)) (getTicketMessages scenario_db 5)
     = [(21, False), (22, True)]"
  by (simp add: getTicketMessages_def join_users_def scenario_db_def scenario_messages_def
        scenario_users_def to_ticket_message_def Boolean_def)

text \<open>
  The thread endpoint \<open>GET /tickets/:id/messages\<close> filters: what it returns to a caller
  who is not an administrator holds no internal message.
\<close>

lemma getTicketMessages_member_filtered:
  assumes "TicketController_getTicketMessages db (Some u) ticketId = Response st (Some ms) txt"
    and "role u \<noteq> Admin"
  shows "\<forall>m\<in>set ms. \<not> is_internal m"
  using assms unfolding TicketController_getTicketMessages_def Let_def
  by (auto split: option.splits if_splits)

text \<open>
  Claim C2 says that no operation shows an internal message to a member, the
  single-ticket view included. In the scenario the owner of ticket 5 asks for the ticket
  (\<open>GET /tickets/5\<close>): the answer has status 200 and its \<open>messages\<close> hold the
  administrator's internal note (message 22), which the thread endpoint withholds from the
  same caller.
\<close>

theorem getTicketById_shows_internal_notes_to_owner:
  "(case TicketController_getTicketById scenario_db (Some member_a) 5 of
      Response st d txt \<Rightarrow>
        st = 200 \<and>
        map (\<lambda>m. (msg_id m, is_internal m)) (case d of None \<Rightarrow> [] | Some t \<Rightarrow> td_messages t)
          = [(21, False), (22, True)])
   \<and> (case TicketController_getTicketMessages scenario_db (Some member_a) 5 of
      Response st d txt \<Rightarrow>
        st = 200 \<and>
        map (\<lambda>m. (msg_id m, is_internal m)) (case d of None \<Rightarrow> [] | Some ms \<Rightarrow> ms)
          = [(21, False)])"
proof -
  have own: "user_id scenario_ticket = userId member_a" "role member_a = User"
    by (simp_all add: scenario_ticket_def member_a_def)
  have "map (\<lambda>m. (msg_id m, is_internal m))
          (filter (\<lambda>m. \<not> is_internal m) (getTicketMessages scenario_db 5)) = [(21, False)]"
    by (simp add: getTicketMessages_def join_users_def scenario_db_def scenario_messages_def
        scenario_users_def to_ticket_message_def Boolean_def)
  then show ?thesis
    by (simp add: TicketController_getTicketById_def TicketController_getTicketMessages_def
          getTicketWithDetails_def scenario_getTicketById scenario_thread own)
qed

section \<open>Deleting an attachment\<close>

lemma getAttachmentById_Some:
  "getAttachmentById db i = Some a \<Longrightarrow> a \<in> set (attachments db) \<and> a_id a = i"
  unfolding getAttachmentById_def by (drule first_row_Some_mem) simp

lemma scenario_getAttachmentById:
  "getAttachmentById scenario_db 31 = Some (hd scenario_attachments)"
  "getAttachmentById scenario_db 32 = Some (hd (tl scenario_attachments))"
  "file_path (hd scenario_attachments) = ''uploads/130-00aa.png''"
  "file_path (hd (tl scenario_attachments)) = ''uploads/140-00bb.txt''"
  by (simp_all add: getAttachmentById_def scenario_db_def scenario_attachments_def)

text \<open>
  Claim C4 says that the metadata row is removed only when the removal of the file
  succeeded. In the scenario the disk refuses to remove the file of attachment 31:
  \<open>unlinkSync\<close> throws, and \<open>FileService.deleteAttachment\<close> still returns \<open>true\<close> and
  leaves the table without row 31, the file being where it was.
\<close>

theorem deleteAttachment_blob_failure_counterexample:
  "unlinkSync scenario_disk ''uploads/130-00aa.png'' = Inl Io_error \<and>
   fst (FileService_deleteAttachment (scenario_db, scenario_disk) 31) = True \<and>
   map a_id (attachments (fst (snd (FileService_deleteAttachment (scenario_db, scenario_disk) 31))))
     = [32] \<and>
   snd (snd (FileService_deleteAttachment (scenario_db, scenario_disk) 31)) = scenario_disk \<and>
   existsSync scenario_disk ''uploads/130-00aa.png''"
proof -
  have ex: "existsSync scenario_disk ''uploads/130-00aa.png''"
    and un: "unlinkSync scenario_disk ''uploads/130-00aa.png'' = Inl Io_error"
    by (simp_all add: existsSync_def unlinkSync_def scenario_disk_def)
  have rest: "filter (\<lambda>a. a_id a \<noteq> 31) (attachments scenario_db) = tl scenario_attachments"
    "length (attachments scenario_db) = 2" "map a_id (tl scenario_attachments) = [32]"
    "length scenario_attachments = 2"
    by (simp_all add: scenario_db_def scenario_attachments_def)
  show ?thesis
    by (simp add: FileService_deleteAttachment_def scenario_getAttachmentById ex un rest Let_def)
qed

text \<open>
  Claim C4 as amended. For every delete of an attachment that has a metadata row, the
  removal of the file is attempted first when the file exists; a failure of that removal
  is caught, and the metadata row is removed in every case: the operation returns \<open>true\<close>,
  no row with the id is left, the other tables are untouched, and the disk loses the file
  exactly when the file existed and its removal was not refused.
\<close>

theorem deleteAttachment_removes_metadata_in_every_case:
  assumes "getAttachmentById db i = Some a"
  shows "\<exists>db' disk'. FileService_deleteAttachment (db, disk) i = (True, db', disk') \<and>
           attachments db' = filter (\<lambda>x. a_id x \<noteq> i) (attachments db) \<and>
           getAttachmentById db' i = None \<and>
           tickets db' = tickets db \<and> ticket_messages db' = ticket_messages db \<and>
           users db' = users db \<and>
           disk' = (if existsSync disk (file_path a) \<and> file_path a \<notin> unlink_refused disk
                    then disk\<lparr> files := (files disk)(file_path a := None) \<rparr> else disk)"
proof -
  from getAttachmentById_Some [OF assms] have "a \<in> set (attachments db)" "a_id a = i" by auto
  then have less: "length (filter (\<lambda>x. a_id x \<noteq> i) (attachments db)) < length (attachments db)"
    by (intro length_filter_less [of a]) auto
  have gone: "filter (\<lambda>a. a_id a = i) (filter (\<lambda>x. a_id x \<noteq> i) (attachments db)) = []"
    by (auto simp: filter_empty_conv)
  let ?db' = "db\<lparr> attachments := filter (\<lambda>x. a_id x \<noteq> i) (attachments db) \<rparr>"
  have none: "getAttachmentById ?db' i = None"
    by (simp add: getAttachmentById_def gone)
  have "FileService_deleteAttachment (db, disk) i =
          (True, ?db', if existsSync disk (file_path a) \<and> file_path a \<notin> unlink_refused disk
                       then disk\<lparr> files := (files disk)(file_path a := None) \<rparr> else disk)"
    by (simp add: FileService_deleteAttachment_def assms Let_def less existsSync_def
          unlinkSync_def)
  with none show ?thesis by simp
qed

theorem deleteAttachment_removes_metadata_in_every_case_witness:
  "getAttachmentById scenario_db 31 = Some (hd scenario_attachments) \<and>
   (\<exists>db'. FileService_deleteAttachment (scenario_db, scenario_disk) 31
             = (True, db', scenario_disk) \<and>
          getAttachmentById db' 31 = None)"
proof -
  have "existsSync scenario_disk (file_path (hd scenario_attachments)) \<and>
        file_path (hd scenario_attachments) \<in> unlink_refused scenario_disk"
    by (simp add: scenario_getAttachmentById existsSync_def scenario_disk_def)
  with deleteAttachment_removes_metadata_in_every_case
         [OF scenario_getAttachmentById(1), of scenario_disk]
  show ?thesis by (auto simp: scenario_getAttachmentById(1))
qed

section \<open>Downloading an attachment\<close>

text \<open>
  \<open>validateFileAccess\<close> is \<open>false\<close> when the attachment has no metadata row, for every
  caller: the download is answered 403 before the controller looks the row up, and the
  controller's own answer for a missing row, 404 \<open>'Attachment not found'\<close>, is never sent.
\<close>

lemma download_without_metadata:
  "getAttachmentById db i = None \<Longrightarrow>
     UploadController_downloadAttachment (db, disk) (Some u) i
       = Response 403 None ''Access denied''"
  by (simp add: UploadController_downloadAttachment_def validateFileAccess_def)

text \<open>
  Claim C6 says that a download of an attachment without metadata fails as not found and
  is never reported as forbidden. In the scenario no attachment 99 exists and the
  administrator, who may read every file, asks for it: the answer is 403 \<open>'Access
  denied'\<close>. The other half of the claim holds there: attachment 32 has a row and no file,
  and its download is answered 404.
\<close>

theorem download_of_missing_attachment_is_forbidden:
  "getAttachmentById scenario_db 99 = None \<and>
   UploadController_downloadAttachment (scenario_db, scenario_disk) (Some admin) 99
     = Response 403 None ''Access denied'' \<and>
   UploadController_downloadAttachment (scenario_db, scenario_disk) (Some admin) 32
     = Response 404 None ''File not found on disk''"
proof -
  have none: "getAttachmentById scenario_db 99 = None"
    by (simp add: getAttachmentById_def scenario_db_def scenario_attachments_def)
  have missing: "getFileStream scenario_disk (hd (tl scenario_attachments)) = None"
    by (simp add: getFileStream_def existsSync_def scenario_getAttachmentById scenario_disk_def)
  show ?thesis
    by (simp add: none download_without_metadata)
       (simp add: UploadController_downloadAttachment_def validateFileAccess_def
          scenario_getAttachmentById(2) missing admin_def)
qed

section \<open>The authorization policy\<close>

lemma getTicketWithDetails_ticket:
  "getTicketById db i = Some t \<Longrightarrow> \<exists>d. getTicketWithDetails db i = Some d \<and> td_ticket d = t"
  by (simp add: getTicketWithDetails_def Let_def)

lemma requireAdmin_member:
  "role v = User \<Longrightarrow> requireAdmin (Some v) = Some (Response 403 None ''Admin access required'')"
  by (simp add: requireAdmin_def)

text \<open>
  Claim C5 says that a member who does not own the ticket gets a forbidden error from
  every ticket-scoped operation. In the scenario member 13, who does not own ticket 5,
  posts an empty message to it and uploads to it without a file: both requests are
  answered 400, since the controllers test the payload before the ownership.
\<close>

theorem non_owner_requests_counterexample:
  "getTicketById scenario_db 5 = Some scenario_ticket \<and> role member_b = User \<and>
   user_id scenario_ticket \<noteq> userId member_b \<and>
   TicketController_addMessage scenario_db scenario_env (Some member_b) 5 (JStr []) JUndefined
     = (Response 400 None ''Message content is required'', scenario_db) \<and>
   UploadController_uploadAttachment default_config (scenario_db, scenario_disk) scenario_env
       (Some member_b) None 5
     = (Response 400 None ''No file uploaded'', (scenario_db, scenario_disk))"
  by (simp add: scenario_getTicketById TicketController_addMessage_def
        UploadController_uploadAttachment_def)
     (simp add: member_b_def scenario_ticket_def)

text \<open>
  Claim C5 as amended. For every existing ticket and every member \<open>u\<close> who is not its
  creator: viewing the ticket, its thread and its attachments and downloading one of its
  attachments are answered 403 \<open>'Access denied'\<close> without data; adding a message is
  answered 403 when the body's message is a string that is not empty once its white
  space is trimmed, and 400 otherwise; uploading is answered 403 when a file is present
  and 400 otherwise; the store and the disk are unchanged in every case. For every
  caller \<open>v\<close> who is not an administrator, the ticket's creator included, updating a
  ticket, deleting a ticket and deleting an attachment are answered 403 with the store
  and the disk unchanged.
\<close>

theorem authorization_policy:
  assumes ticket: "getTicketById db ticketId = Some t"
    and member: "role u = User" and stranger: "user_id t \<noteq> userId u"
    and nonadmin: "role v = User"
  shows "TicketController_getTicketById db (Some u) ticketId = Response 403 None ''Access denied''
    \<and> TicketController_getTicketMessages db (Some u) ticketId
         = Response 403 None ''Access denied''
    \<and> UploadController_getTicketAttachments db (Some u) ticketId
         = Response 403 None ''Access denied''
    \<and> (\<forall>i a. getAttachmentById db i = Some a \<and> a_ticket_id a = ticketId \<longrightarrow>
          UploadController_downloadAttachment (db, disk) (Some u) i
            = Response 403 None ''Access denied'')
    \<and> TicketController_addMessage db e (Some u) ticketId body_message body_is_internal
         = (if \<exists>s. body_message = JStr s \<and> trim s \<noteq> []
            then Response 403 None ''Access denied''
            else Response 400 None ''Message content is required'', db)
    \<and> UploadController_uploadAttachment cfg (db, disk) e (Some u) file ticketId
         = (if file = None then Response 400 None ''No file uploaded''
            else Response 403 None ''Access denied'', (db, disk))
    \<and> route_put_ticket db e (Some v) i1 upd = (Response 403 None ''Admin access required'', db)
    \<and> route_delete_ticket db (Some v) i2 = (Response 403 None ''Admin access required'', db)
    \<and> route_delete_attachment (db, disk) (Some v) i3
         = (Response 403 None ''Admin access required'', (db, disk))"
proof (intro conjI allI impI)
  from getTicketWithDetails_ticket [OF ticket] obtain d where
    "getTicketWithDetails db ticketId = Some d" "td_ticket d = t" by blast
  then show "TicketController_getTicketById db (Some u) ticketId
               = Response 403 None ''Access denied''"
    using member stranger by (simp add: TicketController_getTicketById_def)
  show "TicketController_getTicketMessages db (Some u) ticketId
          = Response 403 None ''Access denied''"
    using ticket member stranger by (simp add: TicketController_getTicketMessages_def)
  show "UploadController_getTicketAttachments db (Some u) ticketId
          = Response 403 None ''Access denied''"
    using ticket member stranger by (simp add: UploadController_getTicketAttachments_def)
  have content: "(\<exists>s. body_message = JStr s \<and> trim s \<noteq> [])
                   = (message_content body_message \<noteq> None)"
    using message_content_Some [of body_message] by auto
  show "TicketController_addMessage db e (Some u) ticketId body_message body_is_internal
         = (if \<exists>s. body_message = JStr s \<and> trim s \<noteq> []
            then Response 403 None ''Access denied''
            else Response 400 None ''Message content is required'', db)"
    unfolding content using ticket member stranger
    by (auto simp: TicketController_addMessage_def Let_def split: option.splits)
  show "UploadController_uploadAttachment cfg (db, disk) e (Some u) file ticketId
         = (if file = None then Response 400 None ''No file uploaded''
            else Response 403 None ''Access denied'', (db, disk))"
    using ticket member stranger
    by (auto simp: UploadController_uploadAttachment_def split: option.splits)
  show "route_put_ticket db e (Some v) i1 upd = (Response 403 None ''Admin access required'', db)"
    by (simp add: route_put_ticket_def requireAdmin_member [OF nonadmin])
  show "route_delete_ticket db (Some v) i2 = (Response 403 None ''Admin access required'', db)"
    by (simp add: route_delete_ticket_def requireAdmin_member [OF nonadmin])
  show "route_delete_attachment (db, disk) (Some v) i3
         = (Response 403 None ''Admin access required'', (db, disk))"
    by (simp add: route_delete_attachment_def requireAdmin_member [OF nonadmin])
next
  fix i a
  assume "getAttachmentById db i = Some a \<and> a_ticket_id a = ticketId"
  then show "UploadController_downloadAttachment (db, disk) (Some u) i
               = Response 403 None ''Access denied''"
    using ticket member stranger
    by (simp add: UploadController_downloadAttachment_def validateFileAccess_def
          getTicketById_def)
qed

theorem authorization_policy_witness:
  "getTicketById scenario_db 5 = Some scenario_ticket \<and> role member_b = User \<and>
   user_id scenario_ticket \<noteq> userId member_b \<and> role member_a = User \<and>
   user_id scenario_ticket = userId member_a \<and>
   TicketController_getTicketById scenario_db (Some member_b) 5
     = Response 403 None ''Access denied'' \<and>
   TicketController_getTicketMessages scenario_db (Some member_b) 5
     = Response 403 None ''Access denied'' \<and>
   UploadController_getTicketAttachments scenario_db (Some member_b) 5
     = Response 403 None ''Access denied'' \<and>
   UploadController_downloadAttachment (scenario_db, scenario_disk) (Some member_b) 31
     = Response 403 None ''Access denied'' \<and>
   TicketController_addMessage scenario_db scenario_env (Some member_b) 5
       (JStr ''hello'') (JBool True)
     = (Response 403 None ''Access denied'', scenario_db) \<and>
   TicketController_addMessage scenario_db scenario_env (Some member_b) 5
       (JStr ''   '') (JBool True)
     = (Response 400 None ''Message content is required'', scenario_db) \<and>
   TicketController_addMessage scenario_db scenario_env (Some member_b) 5
       (JStr [CHR 0xC2, CHR 0xA0]) (JBool True)
     = (Response 400 None ''Message content is required'', scenario_db) \<and>
   TicketController_addMessage scenario_db scenario_env (Some member_b) 5
       (JNum 7) (JBool True)
     = (Response 400 None ''Message content is required'', scenario_db) \<and>
   UploadController_uploadAttachment default_config (scenario_db, scenario_disk) scenario_env
       (Some member_b) (Some five_mib_file) 5
     = (Response 403 None ''Access denied'', (scenario_db, scenario_disk)) \<and>
   route_delete_ticket scenario_db (Some member_a) 5
     = (Response 403 None ''Admin access required'', scenario_db)"
proof -
  have h: "role member_b = User" "user_id scenario_ticket \<noteq> userId member_b"
    "role member_a = User" "user_id scenario_ticket = userId member_a"
    by (simp_all add: member_a_def member_b_def scenario_ticket_def)
  have a: "getAttachmentById scenario_db 31 = Some (hd scenario_attachments) \<and>
           a_ticket_id (hd scenario_attachments) = 5"
    by (simp add: scenario_getAttachmentById scenario_attachments_def)
  have m: "trim ''hello'' \<noteq> []" "trim ''   '' = []" "trim [CHR 0xC2, CHR 0xA0] = []"
    by (simp_all add: trim_eval)
  note policy = authorization_policy [OF scenario_getTicketById h(1,2,3),
         where disk = scenario_disk and e = scenario_env and ?i2.0 = 5
           and body_is_internal = "JBool True" and cfg = default_config
           and ?file = "Some five_mib_file"]
  from policy [where body_message = "JStr ''hello''"]
       policy [where body_message = "JStr ''   ''"]
       policy [where body_message = "JStr [CHR 0xC2, CHR 0xA0]"]
       policy [where body_message = "JNum 7"]
  show ?thesis using h a m scenario_getTicketById by auto
qed

section \<open>Validation of an upload\<close>

lemma insert_attachment_Inr:
  assumes "ticketId \<in> set (map t_id (tickets db))" "uid \<in> set (map u_id (users db))"
  shows "\<exists>rowid db'.
       insert_attachment db ts ticketId oname sname fpath fsize mime uid = Inr (rowid, db')
     \<and> attachments db' = attachments db @
           [\<lparr> a_id = rowid, a_ticket_id = ticketId, original_filename = oname,
              stored_filename = sname, file_path = fpath, file_size = fsize,
              mime_type = mime, uploaded_by = uid, uploaded_at = ts \<rparr>]
     \<and> rowid \<notin> set (map a_id (attachments db))
     \<and> users db' = users db \<and> tickets db' = tickets db
     \<and> ticket_messages db' = ticket_messages db"
  using assms next_rowid_fresh [of "seq_attachments db" "map a_id (attachments db)"]
  by (simp add: insert_attachment_def Let_def)

lemma insert_attachment_Inl:
  "insert_attachment db ts ticketId oname sname fpath fsize mime uid = Inl err
     \<Longrightarrow> err = Sqlite_foreign_key"
  by (simp add: insert_attachment_def Let_def split: if_splits)

lemma getAttachmentById_after_insert:
  assumes "attachments db' = attachments db @ [row]"
    and "a_id row \<notin> set (map a_id (attachments db))"
  shows "getAttachmentById db' (a_id row) = Some row"
proof -
  have "filter (\<lambda>a. a_id a = a_id row) (attachments db) = []"
    using assms(2) by (auto simp: filter_empty_conv intro: rev_image_eqI)
  then show ?thesis by (simp add: getAttachmentById_def assms(1))
qed

lemma five_mib_file_sel:
  "size_bytes five_mib_file = 5242880" "mimetype five_mib_file = ''application/pdf''"
  by (simp_all add: five_mib_file_def)

text \<open>
  Claim C7. With the default limit of 5242880 bytes, \<open>FileService.uploadFile\<close> rejects a
  file of more than 5242880 bytes (5242881 in particular) with the size error and a file
  whose MIME type is outside the allow-list, \<open>application/x-executable\<close> for one, with
  the type error; in both cases the store and the disk are returned as they were, so
  nothing was written. A file of exactly 5242880 bytes with an allowed type, for a ticket
  and an uploader that exist, is stored: its bytes are on the disk under the path of the
  row that was added. The size error and the type error stand for the spec's
  \<open>PayloadTooLargeError\<close> and \<open>UnsupportedTypeError\<close>.
\<close>

theorem upload_validation:
  fixes f :: multer_file and db :: database and disk :: filesystem and e :: env
    and ticketId uid :: nat
  defines "r \<equiv> FileService_uploadFile default_config (db, disk) e ticketId uid f"
  shows "(size_bytes f > 5242880 \<longrightarrow> r = (Inl (File_size_exceeds 5242880), db, disk))
    \<and> (size_bytes f = 5242881 \<longrightarrow> r = (Inl (File_size_exceeds 5242880), db, disk))
    \<and> (size_bytes f \<le> 5242880 \<and> mimetype f \<notin> set allowedMimeTypes \<longrightarrow>
          r = (Inl File_type_not_allowed, db, disk))
    \<and> ''application/x-executable'' \<notin> set allowedMimeTypes
    \<and> (size_bytes f = 5242880 \<and> mimetype f \<in> set allowedMimeTypes \<and>
        ticketId \<in> set (map t_id (tickets db)) \<and> uid \<in> set (map u_id (users db)) \<longrightarrow>
          (\<exists>a db' disk'. r = (Inr (Some a), db', disk') \<and>
             attachments db' = attachments db @ [a] \<and>
             a_ticket_id a = ticketId \<and> file_size a = 5242880 \<and> mime_type a = mimetype f \<and>
             files disk' (file_path a) = Some (buffer f)))
    \<and> ((\<exists>err. fst r = Inl err \<and> err \<in> {File_size_exceeds 5242880, File_type_not_allowed})
          \<longrightarrow> snd r = (db, disk))"
proof (intro conjI impI)
  show "''application/x-executable'' \<notin> set allowedMimeTypes"
    by (simp add: allowedMimeTypes_def)
  show "r = (Inl (File_size_exceeds 5242880), db, disk)" if "size_bytes f > 5242880"
    using that by (simp add: r_def FileService_uploadFile_def default_config_def)
  then show "r = (Inl (File_size_exceeds 5242880), db, disk)" if "size_bytes f = 5242881"
    using that by simp
  show "r = (Inl File_type_not_allowed, db, disk)"
    if "size_bytes f \<le> 5242880 \<and> mimetype f \<notin> set allowedMimeTypes"
    using that by (simp add: r_def FileService_uploadFile_def default_config_def)
  show "snd r = (db, disk)"
    if "\<exists>err. fst r = Inl err \<and> err \<in> {File_size_exceeds 5242880, File_type_not_allowed}"
    using that unfolding r_def FileService_uploadFile_def Let_def
    by (auto simp: default_config_def split: if_splits sum.splits dest: insert_attachment_Inl)
next
  assume ok: "size_bytes f = 5242880 \<and> mimetype f \<in> set allowedMimeTypes \<and>
        ticketId \<in> set (map t_id (tickets db)) \<and> uid \<in> set (map u_id (users db))"
  let ?sname = "generateUniqueFilename e (originalname f)"
  let ?path = "path_join ''./uploads'' ?sname"
  from ok insert_attachment_Inr [of ticketId db uid "now e" "originalname f" ?sname ?path
         5242880 "mimetype f"]
  obtain rowid db' where
    ins: "insert_attachment db (now e) ticketId (originalname f) ?sname ?path
            5242880 (mimetype f) uid = Inr (rowid, db')"
    and atts: "attachments db' = attachments db @
                 [\<lparr> a_id = rowid, a_ticket_id = ticketId, original_filename = originalname f,
                    stored_filename = ?sname, file_path = ?path, file_size = 5242880,
                    mime_type = mimetype f, uploaded_by = uid, uploaded_at = now e \<rparr>]"
    and fresh: "rowid \<notin> set (map a_id (attachments db))"
    by blast
  let ?row = "\<lparr> a_id = rowid, a_ticket_id = ticketId, original_filename = originalname f,
                stored_filename = ?sname, file_path = ?path, file_size = 5242880,
                mime_type = mimetype f, uploaded_by = uid, uploaded_at = now e \<rparr>"
  have get: "getAttachmentById db' rowid = Some ?row"
    using getAttachmentById_after_insert [of db' db ?row] atts fresh by simp
  have "r = (Inr (Some ?row), db', writeFileSync disk ?path (buffer f))"
    using ok by (simp add: r_def FileService_uploadFile_def Let_def ins get default_config_def)
  then show "\<exists>a db' disk'. r = (Inr (Some a), db', disk') \<and>
             attachments db' = attachments db @ [a] \<and>
             a_ticket_id a = ticketId \<and> file_size a = 5242880 \<and> mime_type a = mimetype f \<and>
             files disk' (file_path a) = Some (buffer f)"
    using atts ok by (simp add: writeFileSync_def)
qed

theorem upload_validation_witness:
  "size_bytes five_mib_file = 5242880 \<and> mimetype five_mib_file \<in> set allowedMimeTypes \<and>
   5 \<in> set (map t_id (tickets scenario_db)) \<and> 12 \<in> set (map u_id (users scenario_db)) \<and>
   (\<exists>a db' disk'. FileService_uploadFile default_config (scenario_db, scenario_disk) scenario_env
                     5 12 five_mib_file = (Inr (Some a), db', disk') \<and>
        file_size a = 5242880 \<and> files disk' (file_path a) = Some (buffer five_mib_file)) \<and>
   FileService_uploadFile default_config (scenario_db, scenario_disk) scenario_env 5 12
       (five_mib_file\<lparr> size_bytes := 5242881 \<rparr>)
     = (Inl (File_size_exceeds 5242880), scenario_db, scenario_disk) \<and>
   FileService_uploadFile default_config (scenario_db, scenario_disk) scenario_env 5 12
       (five_mib_file\<lparr> mimetype := ''application/x-executable'' \<rparr>)
     = (Inl File_type_not_allowed, scenario_db, scenario_disk)"
proof -
  have h: "mimetype five_mib_file \<in> set allowedMimeTypes"
    "5 \<in> set (map t_id (tickets scenario_db))" "12 \<in> set (map u_id (users scenario_db))"
    by (simp_all add: five_mib_file_sel allowedMimeTypes_def scenario_db_def scenario_ticket_def
          scenario_users_def)
  note uv = upload_validation [where db = scenario_db and disk = scenario_disk
      and e = scenario_env and ticketId = 5 and uid = 12]
  from uv [where f = five_mib_file] h five_mib_file_sel(1)
  have 1: "\<exists>a db' disk'. FileService_uploadFile default_config (scenario_db, scenario_disk)
                     scenario_env 5 12 five_mib_file = (Inr (Some a), db', disk') \<and>
        file_size a = 5242880 \<and> files disk' (file_path a) = Some (buffer five_mib_file)"
    by blast
  from uv [where f = "five_mib_file\<lparr> size_bytes := 5242881 \<rparr>"]
  have 2: "FileService_uploadFile default_config (scenario_db, scenario_disk) scenario_env 5 12
       (five_mib_file\<lparr> size_bytes := 5242881 \<rparr>)
     = (Inl (File_size_exceeds 5242880), scenario_db, scenario_disk)"
    by simp
  from uv [where f = "five_mib_file\<lparr> mimetype := ''application/x-executable'' \<rparr>"]
  have 3: "FileService_uploadFile default_config (scenario_db, scenario_disk) scenario_env 5 12
       (five_mib_file\<lparr> mimetype := ''application/x-executable'' \<rparr>)
     = (Inl File_type_not_allowed, scenario_db, scenario_disk)"
    by (simp add: five_mib_file_sel)
  from 1 2 3 h five_mib_file_sel(1) show ?thesis by simp
qed

section \<open>Creating a ticket\<close>

lemma errorHandler_Required_fields:
  "errorHandler Required_fields
     = Response 400 None ''Title, description, and category are required''"
  by (simp add: errorHandler_def)

lemma errorHandler_Sqlite:
  "errorHandler Sqlite_unique = Response 500 None ''Internal server error''"
  "errorHandler Sqlite_check = Response 500 None ''Internal server error''"
  "errorHandler Sqlite_foreign_key = Response 500 None ''Internal server error''"
  by (simp_all add: errorHandler_def)

lemma insert_ticket_Inr:
  assumes "insert_ticket db ts num uid ttl descr cat prio = Inr (rowid, db')"
  shows "tickets db' = tickets db @
            [\<lparr> t_id = rowid, ticket_number = num, user_id = uid, title = ttl,
               description = descr, category = cat, priority = prio,
               status = ''open'', assigned_to = None, created_at = ts, updated_at = ts \<rparr>]
         \<and> rowid \<notin> set (map t_id (tickets db))
         \<and> num \<notin> set (map ticket_number (tickets db))
         \<and> users db' = users db \<and> ticket_messages db' = ticket_messages db
         \<and> attachments db' = attachments db"
proof -
  from assms have rid: "rowid = next_rowid (seq_tickets db) (map t_id (tickets db))"
    by (simp add: insert_ticket_def Let_def split: if_splits)
  have "rowid \<notin> set (map t_id (tickets db))"
    unfolding rid by (rule next_rowid_fresh)
  with assms show ?thesis
    by (auto simp: insert_ticket_def Let_def split: if_splits)
qed

lemma getTicketById_after_insert:
  assumes "tickets db' = tickets db @ [row]"
    and "t_id row \<notin> set (map t_id (tickets db))"
  shows "getTicketById db' (t_id row) = Some row"
proof -
  have "filter (\<lambda>t. t_id t = t_id row) (tickets db) = []"
    using assms(2) by (auto simp: filter_empty_conv intro: rev_image_eqI)
  then show ?thesis by (simp add: getTicketById_def assms(1))
qed

text \<open>What a successful \<open>TicketService.createTicket\<close> has done.\<close>

lemma createTicket_Inr:
  assumes "TicketService_createTicket db e uid td = (Inr r, db')"
  shows "\<exists>t. r = Some t \<and> tickets db' = tickets db @ [t] \<and>
           ticket_number t = generateTicketNumber (full_year e) (random_num e) \<and>
           ticket_number t \<notin> set (map ticket_number (tickets db)) \<and>
           t_id t \<notin> set (map t_id (tickets db)) \<and>
           user_id t = uid \<and> tc_title td = Some (title t) \<and>
           tc_description td = Some (description t) \<and> tc_category td = Some (category t) \<and>
           priority t = tc_priority td \<and> status t = ''open'' \<and> assigned_to t = None \<and>
           users db' = users db \<and> ticket_messages db' = ticket_messages db \<and>
           attachments db' = attachments db"
proof -
  from assms obtain ttl descr cat rowid where
    td: "tc_title td = Some ttl" "tc_description td = Some descr" "tc_category td = Some cat"
    and ins: "insert_ticket db (now e) (generateTicketNumber (full_year e) (random_num e)) uid
                ttl descr cat (tc_priority td) = Inr (rowid, db')"
    and r: "r = getTicketById db' rowid"
    unfolding TicketService_createTicket_def Let_def
    by (auto split: option.splits if_splits sum.splits)
  let ?t = "\<lparr> t_id = rowid, ticket_number = generateTicketNumber (full_year e) (random_num e),
              user_id = uid, title = ttl, description = descr, category = cat,
              priority = tc_priority td, status = ''open'', assigned_to = None,
              created_at = now e, updated_at = now e \<rparr>"
  note facts = insert_ticket_Inr [OF ins]
  have "getTicketById db' (t_id ?t) = Some ?t"
    by (rule getTicketById_after_insert [where db = db]) (use facts in simp_all)
  with r facts td show ?thesis
    by (intro exI [of _ ?t]) simp
qed

lemma createTicket_Inl:
  "TicketService_createTicket db e uid td = (Inl err, db') \<Longrightarrow> db' = db"
  unfolding TicketService_createTicket_def Let_def
  by (auto split: option.splits if_splits sum.splits)

lemma createTicket_required:
  assumes "tc_title td \<in> {None, Some []} \<or> tc_description td \<in> {None, Some []}
           \<or> tc_category td \<in> {None, Some []}"
  shows "TicketService_createTicket db e uid td = (Inl Required_fields, db)"
  using assms unfolding TicketService_createTicket_def
  by (auto split: option.splits)

lemma toString_examples:
  "toString 2026 = ''2026''" "toString 7 = ''7''" "toString 42 = ''42''"
  by (simp_all add: toString.simps digit_char_def)

lemma padStart_examples:
  "padStart ''7'' 4 CHR ''0'' = ''0007''" "padStart ''42'' 4 CHR ''0'' = ''0042''"
  by (simp_all add: padStart_def eval_nat_numeral)

lemma generateTicketNumber_examples:
  "generateTicketNumber 2026 7 = ''TKT-2026-0007''"
  "generateTicketNumber 2026 42 = ''TKT-2026-0042''"
  by (simp_all add: generateTicketNumber_def toString_examples padStart_examples)

lemma scenario_createTicket_status:
  "res_status (fst (TicketController_createTicket scenario_db scenario_env (Some member_a)
                      scenario_body)) = 201"
proof -
  have "\<exists>rowid db'. insert_ticket scenario_db 200 ''TKT-2026-0007'' 12 ''VPN''
           ''Cannot connect'' ''network'' ''medium'' = Inr (rowid, db')"
    by (simp add: insert_ticket_def categories_def priorities_def scenario_db_def
          scenario_ticket_def scenario_users_def Let_def)
  then have "\<exists>r db'. TicketService_createTicket scenario_db scenario_env 12
              \<lparr> tc_title = Some ''VPN'', tc_description = Some ''Cannot connect'',
                tc_category = Some ''network'', tc_priority = ''medium'' \<rparr> = (Inr r, db')"
    unfolding TicketService_createTicket_def
    by (auto simp: scenario_env_def generateTicketNumber_examples)
  then show ?thesis
    unfolding TicketController_createTicket_def
    by (auto simp: scenario_body_def member_a_def)
qed

text \<open>
  Claim C8. Whenever \<open>POST /tickets\<close> creates a ticket (status 201), the returned ticket
  has status \<open>open\<close> and no assignee, belongs to the caller, has priority \<open>medium\<close> when
  the body gave none, and is the row that was added to the store. Whenever the title,
  the description or the category is absent (or empty), the request is answered with the
  validation error (400) and the store is unchanged.
\<close>

theorem createTicket_postcondition:
  assumes "TicketController_createTicket db e (Some u) body = (res, db')"
  shows "(res_status res = 201 \<longrightarrow>
            (\<exists>t. res_data res = Some t \<and> status t = ''open'' \<and> assigned_to t = None \<and>
                 user_id t = userId u \<and>
                 (b_priority body = None \<longrightarrow> priority t = ''medium'') \<and>
                 tickets db' = tickets db @ [t] \<and> getTicketById db' (t_id t) = Some t))
    \<and> (b_title body \<in> {None, Some []} \<or> b_description body \<in> {None, Some []}
          \<or> b_category body \<in> {None, Some []} \<longrightarrow>
            res = Response 400 None ''Title, description, and category are required'' \<and>
            db' = db)"
proof (intro conjI impI)
  let ?td = "\<lparr> tc_title = b_title body, tc_description = b_description body,
               tc_category = b_category body,
               tc_priority = (case b_priority body of None \<Rightarrow> ''medium'' | Some p \<Rightarrow> p) \<rparr>"
  {
    assume "res_status res = 201"
    with assms obtain r where
      svc: "TicketService_createTicket db e (userId u) ?td = (Inr r, db')"
      and res: "res = Response 201 r ''Ticket created successfully''"
      unfolding TicketController_createTicket_def Let_def
      by (auto split: sum.splits prod.splits)
    from createTicket_Inr [OF svc] obtain t where
      t: "r = Some t" "tickets db' = tickets db @ [t]" "t_id t \<notin> set (map t_id (tickets db))"
        "user_id t = userId u" "priority t = tc_priority ?td" "status t = ''open''"
        "assigned_to t = None"
      by blast
    from getTicketById_after_insert [OF t(2,3)] t res
    show "\<exists>t. res_data res = Some t \<and> status t = ''open'' \<and> assigned_to t = None \<and>
                 user_id t = userId u \<and>
                 (b_priority body = None \<longrightarrow> priority t = ''medium'') \<and>
                 tickets db' = tickets db @ [t] \<and> getTicketById db' (t_id t) = Some t"
      by (intro exI [of _ t]) simp
  }
  {
    assume "b_title body \<in> {None, Some []} \<or> b_description body \<in> {None, Some []}
          \<or> b_category body \<in> {None, Some []}"
    then have "TicketService_createTicket db e (userId u) ?td = (Inl Required_fields, db)"
      by (intro createTicket_required) simp
    with assms show "res = Response 400 None ''Title, description, and category are required''"
      and "db' = db"
      by (simp_all add: TicketController_createTicket_def Let_def errorHandler_Required_fields)
  }
qed

theorem createTicket_postcondition_witness:
  "res_status (fst (TicketController_createTicket scenario_db scenario_env (Some member_a)
                      scenario_body)) = 201 \<and>
   (\<exists>t. res_data (fst (TicketController_createTicket scenario_db scenario_env (Some member_a)
                         scenario_body)) = Some t \<and>
        status t = ''open'' \<and> assigned_to t = None \<and> priority t = ''medium'') \<and>
   b_title (scenario_body\<lparr> b_title := None \<rparr>) = None \<and>
   TicketController_createTicket scenario_db scenario_env (Some member_a)
       (scenario_body\<lparr> b_title := None \<rparr>)
     = (Response 400 None ''Title, description, and category are required'', scenario_db)"
proof -
  let ?X = "TicketController_createTicket scenario_db scenario_env (Some member_a) scenario_body"
  let ?Y = "TicketController_createTicket scenario_db scenario_env (Some member_a)
              (scenario_body\<lparr> b_title := None \<rparr>)"
  have p: "b_priority scenario_body = None" by (simp add: scenario_body_def)
  from createTicket_postcondition [of scenario_db scenario_env member_a scenario_body
         "fst ?X" "snd ?X"] scenario_createTicket_status p
  have 1: "\<exists>t. res_data (fst ?X) = Some t \<and>
        status t = ''open'' \<and> assigned_to t = None \<and> priority t = ''medium''"
    by auto
  from createTicket_postcondition [of scenario_db scenario_env member_a
         "scenario_body\<lparr> b_title := None \<rparr>" "fst ?Y" "snd ?Y"]
  have 2: "?Y = (Response 400 None ''Title, description, and category are required'', scenario_db)"
    by (simp add: prod_eq_iff)
  from 1 2 scenario_createTicket_status show ?thesis by simp
qed

section \<open>Ticket numbers\<close>

lemma digit_char_digit: "d < 10 \<Longrightarrow> digit_char d \<in> set ''0123456789''"
  unfolding digit_char_def by (rule nth_mem) simp

lemma toString_digits: "set (toString n) \<subseteq> set ''0123456789''"
proof (induction n rule: toString.induct)
  case (1 n)
  show ?case
  proof (cases "n < 10")
    case True
    with digit_char_digit [of n] show ?thesis by (subst toString.simps) simp
  next
    case False
    have "n mod 10 < 10" by simp
    from digit_char_digit [OF this] 1 [OF False] False show ?thesis
      by (subst toString.simps) simp
  qed
qed

lemma length_toString: "0 < k \<Longrightarrow> n < 10 ^ k \<Longrightarrow> length (toString n) \<le> k"
proof (induction n arbitrary: k rule: toString.induct)
  case (1 n)
  show ?case
  proof (cases "n < 10")
    case True
    with 1(2) show ?thesis by (subst toString.simps) simp
  next
    case False
    with 1(2,3) have "1 < k" by (cases "k = 1") auto
    then obtain j where k: "k = Suc j" "0 < j" by (cases k) auto
    with 1(3) have "n div 10 < 10 ^ j" by (simp add: less_mult_imp_div_less mult.commute)
    from 1(1) [OF False k(2) this] False k show ?thesis
      by (subst toString.simps) simp
  qed
qed

lemma padStart_four:
  assumes "length s \<le> 4" "set s \<subseteq> set ''0123456789''"
  shows "length (padStart s 4 CHR ''0'') = 4 \<and> set (padStart s 4 CHR ''0'') \<subseteq> set ''0123456789''"
  using assms by (auto simp: padStart_def)

lemma generateTicketNumber_format:
  assumes "randomNum < 10000"
  shows "\<exists>ds. generateTicketNumber year randomNum = ''TKT-'' @ toString year @ ''-'' @ ds \<and>
           length ds = 4 \<and> set ds \<subseteq> set ''0123456789''"
proof -
  have "length (toString randomNum) \<le> 4"
    using assms by (intro length_toString) simp_all
  from padStart_four [OF this toString_digits] show ?thesis
    unfolding generateTicketNumber_def by blast
qed

lemma create_tickets_numbers:
  "distinct (map ticket_number (fst (create_tickets db calls))) \<and>
   (\<forall>t\<in>set (fst (create_tickets db calls)).
       ticket_number t \<notin> set (map ticket_number (tickets db)))"
proof (induction calls arbitrary: db)
  case Nil
  show ?case by simp
next
  case (Cons c calls)
  obtain e uid td where c: "c = (e, uid, td)" by (cases c)
  obtain r db' where svc: "TicketService_createTicket db e uid td = (r, db')"
    by (cases "TicketService_createTicket db e uid td")
  show ?case
  proof (cases "\<exists>t. r = Inr (Some t)")
    case True
    then obtain t where r: "r = Inr (Some t)" by blast
    from createTicket_Inr [OF svc [unfolded r]]
    have t: "tickets db' = tickets db @ [t]"
      "ticket_number t \<notin> set (map ticket_number (tickets db))"
      by auto
    obtain ts db'' where rest: "create_tickets db' calls = (ts, db'')"
      by (cases "create_tickets db' calls")
    from Cons.IH [of db'] rest t(1)
    have ih: "distinct (map ticket_number ts)"
      "\<forall>x\<in>set ts. ticket_number x \<noteq> ticket_number t \<and>
                  ticket_number x \<notin> set (map ticket_number (tickets db))"
      by auto
    have "create_tickets db (c # calls) = (t # ts, db'')"
      by (simp add: c svc r rest)
    with ih t(2) show ?thesis by auto
  next
    case False
    then have "create_tickets db (c # calls) = create_tickets db' calls"
      by (cases r; cases "projr r") (auto simp: c svc)
    moreover have "db' = db"
    proof (cases r)
      case (Inl err)
      with svc show ?thesis by (auto dest: createTicket_Inl)
    next
      case (Inr x)
      with svc createTicket_Inr [of db e uid td x db'] False show ?thesis by auto
    qed
    ultimately show ?thesis using Cons.IH [of db] by simp
  qed
qed

lemma createTicket_collision:
  assumes "generateTicketNumber (full_year e) (random_num e)
             \<in> set (map ticket_number (tickets db))"
  shows "\<exists>err. TicketService_createTicket db e uid td = (Inl err, db) \<and>
           err \<in> {Required_fields, Sqlite_check, Sqlite_unique}"
  using assms unfolding TicketService_createTicket_def Let_def insert_ticket_def
  by (auto split: option.splits)

lemma createTicket_succeeds:
  assumes "tc_title td = Some ttl" "ttl \<noteq> []" "tc_description td = Some descr" "descr \<noteq> []"
    "tc_category td = Some cat" "cat \<in> set categories" "tc_priority td \<in> set priorities"
    "generateTicketNumber (full_year e) (random_num e) \<notin> set (map ticket_number (tickets db))"
    "uid \<in> set (map u_id (users db))"
  shows "\<exists>t db'. TicketService_createTicket db e uid td = (Inr (Some t), db') \<and>
           tickets db' = tickets db @ [t] \<and>
           ticket_number t = generateTicketNumber (full_year e) (random_num e) \<and>
           users db' = users db"
proof -
  from assms(6) have "cat \<noteq> []" by (auto simp: categories_def)
  moreover have "\<exists>rowid db'. insert_ticket db (now e)
        (generateTicketNumber (full_year e) (random_num e)) uid ttl descr cat (tc_priority td)
          = Inr (rowid, db')"
    using assms by (simp add: insert_ticket_def Let_def)
  ultimately obtain r db' where "TicketService_createTicket db e uid td = (Inr r, db')"
    using assms(1-5) unfolding TicketService_createTicket_def Let_def by auto
  with createTicket_Inr [OF this] show ?thesis by auto
qed

lemma more_toString_examples: "toString 8 = ''8''" "toString 9 = ''9''"
  by (simp_all add: toString.simps digit_char_def)

lemma more_padStart_examples:
  "padStart ''8'' 4 CHR ''0'' = ''0008''" "padStart ''9'' 4 CHR ''0'' = ''0009''"
  by (simp_all add: padStart_def eval_nat_numeral)

lemma more_number_examples:
  "generateTicketNumber 2026 8 = ''TKT-2026-0008''"
  "generateTicketNumber 2026 9 = ''TKT-2026-0009''"
  by (simp_all add: generateTicketNumber_def toString_examples more_toString_examples
        more_padStart_examples)

lemma three_calls_numbers:
  "map ticket_number (fst (create_tickets scenario_db three_calls))
     = [''TKT-2026-0007'', ''TKT-2026-0008'', ''TKT-2026-0009'']"
proof -
  have td: "tc_title scenario_create = Some ''VPN''" "''VPN'' \<noteq> []"
    "tc_description scenario_create = Some ''Cannot connect''" "''Cannot connect'' \<noteq> []"
    "tc_category scenario_create = Some ''network''" "''network'' \<in> set categories"
    "tc_priority scenario_create \<in> set priorities"
    by (simp_all add: scenario_create_def categories_def priorities_def)
  have db0: "map ticket_number (tickets scenario_db) = [''TKT-2026-0042'']"
    "map u_id (users scenario_db) = [11, 12, 13]"
    by (simp_all add: scenario_db_def scenario_ticket_def scenario_users_def)
  let ?e1 = scenario_env and ?e2 = "scenario_env\<lparr> random_num := 8 \<rparr>"
    and ?e3 = "scenario_env\<lparr> random_num := 9 \<rparr>"
  have g: "full_year scenario_env = 2026" "random_num scenario_env = 7"
    by (simp_all add: scenario_env_def)
  note ex = generateTicketNumber_examples more_number_examples
  from createTicket_succeeds [OF td, of ?e1 scenario_db 12] obtain t1 db1 where
    1: "TicketService_createTicket scenario_db ?e1 12 scenario_create = (Inr (Some t1), db1)"
      "tickets db1 = tickets scenario_db @ [t1]" "ticket_number t1 = ''TKT-2026-0007''"
      "users db1 = users scenario_db"
    by (auto simp: g ex db0)
  from createTicket_succeeds [OF td, of ?e2 db1 13] obtain t2 db2 where
    2: "TicketService_createTicket db1 ?e2 13 scenario_create = (Inr (Some t2), db2)"
      "tickets db2 = tickets db1 @ [t2]" "ticket_number t2 = ''TKT-2026-0008''"
      "users db2 = users db1"
    by (auto simp: g ex db0 1)
  from createTicket_succeeds [OF td, of ?e3 db2 12] obtain t3 db3 where
    3: "TicketService_createTicket db2 ?e3 12 scenario_create = (Inr (Some t3), db3)"
      "ticket_number t3 = ''TKT-2026-0009''"
    by (auto simp: g ex db0 1 2)
  show ?thesis
    by (simp add: three_calls_def 1 2 3)
qed

text \<open>
  Claim C9 says that a collision of a generated number with a stored one leads to a fresh
  number and never to an error. In the scenario the random number 42 gives the number of
  ticket 5 again: the insert fails on the \<open>UNIQUE\<close> constraint, \<open>POST /tickets\<close> is
  answered 500 and the store is as before.
\<close>

theorem ticket_number_collision_counterexample:
  "generateTicketNumber (full_year colliding_env) (random_num colliding_env) = ''TKT-2026-0042'' \<and>
   ticket_number scenario_ticket = ''TKT-2026-0042'' \<and> tickets scenario_db = [scenario_ticket] \<and>
   TicketController_createTicket scenario_db colliding_env (Some member_a) scenario_body
     = (Response 500 None ''Internal server error'', scenario_db)"
proof -
  have gen: "generateTicketNumber (full_year colliding_env) (random_num colliding_env)
               = ''TKT-2026-0042''"
    by (simp add: colliding_env_def scenario_env_def generateTicketNumber_examples)
  have ins: "insert_ticket scenario_db (now colliding_env) ''TKT-2026-0042'' 12 ''VPN''
           ''Cannot connect'' ''network'' ''medium'' = Inl Sqlite_unique"
    by (simp add: insert_ticket_def categories_def priorities_def scenario_db_def
          scenario_ticket_def)
  have "TicketService_createTicket scenario_db colliding_env 12
              \<lparr> tc_title = Some ''VPN'', tc_description = Some ''Cannot connect'',
                tc_category = Some ''network'', tc_priority = ''medium'' \<rparr>
          = (Inl Sqlite_unique, scenario_db)"
    unfolding TicketService_createTicket_def
    by (simp add: gen ins)
  then have "TicketController_createTicket scenario_db colliding_env (Some member_a) scenario_body
     = (Response 500 None ''Internal server error'', scenario_db)"
    unfolding TicketController_createTicket_def
    by (simp add: scenario_body_def member_a_def errorHandler_Sqlite)
  with gen show ?thesis by (simp add: scenario_ticket_def scenario_db_def)
qed

text \<open>
  Claim C9 as amended. Every generated number is \<open>TKT-\<close>, the decimal digits of the year,
  \<open>-\<close> and four decimal digits (the random number being below 10000, as
  \<open>Math.floor(Math.random() * 10000)\<close> is). In every sequence of creations the numbers of
  the tickets that the successful calls return are pairwise distinct and differ from the
  numbers the store held before. A generated number that is already stored is not
  replaced: \<open>createTicket\<close> fails, the store is unchanged, and the caller gets the error
  (status 500, or 400 when a required field is missing as well).
\<close>

theorem ticket_numbers:
  "(randomNum < 10000 \<longrightarrow>
      (\<exists>ds. generateTicketNumber year randomNum = ''TKT-'' @ toString year @ ''-'' @ ds \<and>
            length ds = 4 \<and> set ds \<subseteq> set ''0123456789''))
   \<and> set (toString year) \<subseteq> set ''0123456789''
   \<and> distinct (map ticket_number (fst (create_tickets db calls)))
   \<and> (\<forall>t\<in>set (fst (create_tickets db calls)).
         ticket_number t \<notin> set (map ticket_number (tickets db)))
   \<and> (generateTicketNumber (full_year e) (random_num e)
         \<in> set (map ticket_number (tickets db)) \<longrightarrow>
       (\<exists>err. TicketService_createTicket db e uid td = (Inl err, db) \<and>
              err \<in> {Required_fields, Sqlite_check, Sqlite_unique}) \<and>
       snd (TicketController_createTicket db e (Some u) body) = db \<and>
       res_data (fst (TicketController_createTicket db e (Some u) body)) = None \<and>
       res_status (fst (TicketController_createTicket db e (Some u) body)) \<in> {400, 500})"
proof (intro conjI impI)
  show "\<exists>ds. generateTicketNumber year randomNum = ''TKT-'' @ toString year @ ''-'' @ ds \<and>
            length ds = 4 \<and> set ds \<subseteq> set ''0123456789''" if "randomNum < 10000"
    using that by (rule generateTicketNumber_format)
  show "set (toString year) \<subseteq> set ''0123456789''" by (rule toString_digits)
  show "distinct (map ticket_number (fst (create_tickets db calls)))"
    and "\<forall>t\<in>set (fst (create_tickets db calls)).
         ticket_number t \<notin> set (map ticket_number (tickets db))"
    using create_tickets_numbers [of db calls] by blast+
next
  assume col: "generateTicketNumber (full_year e) (random_num e)
         \<in> set (map ticket_number (tickets db))"
  show "\<exists>err. TicketService_createTicket db e uid td = (Inl err, db) \<and>
              err \<in> {Required_fields, Sqlite_check, Sqlite_unique}"
    by (rule createTicket_collision [OF col])
  let ?td = "\<lparr> tc_title = b_title body, tc_description = b_description body,
               tc_category = b_category body,
               tc_priority = (case b_priority body of None \<Rightarrow> ''medium'' | Some p \<Rightarrow> p) \<rparr>"
  from createTicket_collision [OF col, of "userId u" ?td] obtain err where
    err: "TicketService_createTicket db e (userId u) ?td = (Inl err, db)"
      "err \<in> {Required_fields, Sqlite_check, Sqlite_unique}"
    by blast
  then have res: "TicketController_createTicket db e (Some u) body = (errorHandler err, db)"
    by (simp add: TicketController_createTicket_def Let_def)
  show "snd (TicketController_createTicket db e (Some u) body) = db"
    by (simp add: res)
  from err(2) show "res_data (fst (TicketController_createTicket db e (Some u) body)) = None"
    by (auto simp: res errorHandler_Required_fields errorHandler_Sqlite)
  from err(2) show "res_status (fst (TicketController_createTicket db e (Some u) body))
                      \<in> {400, 500}"
    by (auto simp: res errorHandler_Required_fields errorHandler_Sqlite)
qed

theorem ticket_numbers_witness:
  "(42::nat) < 10000 \<and> generateTicketNumber 2026 42 = ''TKT-2026-0042'' \<and>
   map ticket_number (fst (create_tickets scenario_db three_calls))
     = [''TKT-2026-0007'', ''TKT-2026-0008'', ''TKT-2026-0009''] \<and>
   distinct (map ticket_number (fst (create_tickets scenario_db three_calls))) \<and>
   generateTicketNumber (full_year colliding_env) (random_num colliding_env)
     \<in> set (map ticket_number (tickets scenario_db)) \<and>
   snd (TicketController_createTicket scenario_db colliding_env (Some member_a) scenario_body)
     = scenario_db"
proof -
  have col: "generateTicketNumber (full_year colliding_env) (random_num colliding_env)
     \<in> set (map ticket_number (tickets scenario_db))"
    by (simp add: colliding_env_def scenario_env_def generateTicketNumber_examples
          scenario_db_def scenario_ticket_def)
  from ticket_numbers [where randomNum = 42 and year = 2026 and db = scenario_db
         and calls = three_calls and e = colliding_env and u = member_a
         and body = scenario_body]
  show ?thesis using col three_calls_numbers generateTicketNumber_examples by simp
qed

section \<open>Searching tickets\<close>

lemma scenario_like: "like (''%'' @ ''PRINTER'' @ ''%'') (title scenario_ticket)"
  by (simp add: scenario_ticket_def lower_def)

lemma scenario_search:
  "TicketService_searchTickets scenario_db ''PRINTER'' None = [scenario_ticket]"
  "TicketService_searchTickets scenario_db ''PRINTER'' (Some 12) = [scenario_ticket]"
  "TicketService_searchTickets scenario_db ''PRINTER'' (Some 13) = []"
proof -
  have t: "tickets scenario_db = [scenario_ticket]" "user_id scenario_ticket = 12"
    by (simp_all add: scenario_db_def scenario_ticket_def)
  show "TicketService_searchTickets scenario_db ''PRINTER'' None = [scenario_ticket]"
    "TicketService_searchTickets scenario_db ''PRINTER'' (Some 12) = [scenario_ticket]"
    "TicketService_searchTickets scenario_db ''PRINTER'' (Some 13) = []"
    unfolding TicketService_searchTickets_def Let_def t
    using scenario_like by (simp_all add: t del: like.simps)
qed

text \<open>Row ids start at 1: no user has the id 0, which \<open>if (userId)\<close> takes for absent.\<close>

lemma next_rowid_positive: "0 < next_rowid s ids"
  by (simp add: next_rowid_def)

text \<open>
  Claim C10. Every ticket that \<open>GET /tickets/search\<close> returns to a caller who is not an
  administrator was created by the caller; the list is the administrator's result for
  the same query restricted to the caller's tickets, and the administrator's result
  ranges over all tickets that match the query. User ids are row ids of the users table,
  so the caller's id is positive.
\<close>

theorem search_is_ownership_scoped:
  assumes "TicketController_searchTickets db (Some u) q = Response st (Some ts) txt"
    and "role u = User" and "0 < userId u"
  shows "(\<forall>t\<in>set ts. user_id t = userId u)
    \<and> (\<forall>a. role a = Admin \<longrightarrow>
         (\<exists>query allTickets.
            q = Some query \<and>
            TicketController_searchTickets db (Some a) q = Response st (Some allTickets) txt \<and>
            ts = filter (\<lambda>t. user_id t = userId u) allTickets \<and>
            set allTickets =
              {t \<in> set (tickets db).
                 like (''%'' @ query @ ''%'') (title t) \<or>
                 like (''%'' @ query @ ''%'') (description t) \<or>
                 like (''%'' @ query @ ''%'') (ticket_number t)}))"
proof -
  from assms obtain query where q: "q = Some query" "query \<noteq> []"
    and st: "st = 200" "txt = ''Search completed successfully''"
    and ts: "ts = TicketService_searchTickets db query (Some (userId u))"
    unfolding TicketController_searchTickets_def Let_def
    by (auto split: option.splits if_splits)
  let ?m = "\<lambda>t. like (''%'' @ query @ ''%'') (title t) \<or>
                 like (''%'' @ query @ ''%'') (description t) \<or>
                 like (''%'' @ query @ ''%'') (ticket_number t)"
  have admin: "TicketService_searchTickets db query None
                 = order_desc created_at (filter ?m (tickets db))"
    by (simp add: TicketService_searchTickets_def Let_def)
  have member: "ts = filter (\<lambda>t. user_id t = userId u)
                       (order_desc created_at (filter ?m (tickets db)))"
  proof -
    have "ts = order_desc created_at
                 (filter (\<lambda>t. user_id t = userId u) (filter ?m (tickets db)))"
      using assms(3)
      by (simp add: ts TicketService_searchTickets_def Let_def del: filter_filter)
    also have "\<dots> = filter (\<lambda>t. user_id t = userId u)
                       (order_desc created_at (filter ?m (tickets db)))"
      by (simp only: filter_order_desc)
    finally show ?thesis .
  qed
  show ?thesis
  proof (intro conjI allI impI)
    show "\<forall>t\<in>set ts. user_id t = userId u" by (simp add: member)
    fix a :: auth_user
    assume "role a = Admin"
    then have "TicketController_searchTickets db (Some a) q
                 = Response st (Some (order_desc created_at (filter ?m (tickets db)))) txt"
      by (simp add: TicketController_searchTickets_def q st admin Let_def)
    with member q show "\<exists>query allTickets.
            q = Some query \<and>
            TicketController_searchTickets db (Some a) q = Response st (Some allTickets) txt \<and>
            ts = filter (\<lambda>t. user_id t = userId u) allTickets \<and>
            set allTickets =
              {t \<in> set (tickets db).
                 like (''%'' @ query @ ''%'') (title t) \<or>
                 like (''%'' @ query @ ''%'') (description t) \<or>
                 like (''%'' @ query @ ''%'') (ticket_number t)}"
      by (intro exI [of _ query] exI [of _ "order_desc created_at (filter ?m (tickets db))"])
         auto
  qed
qed

theorem search_is_ownership_scoped_witness:
  "role member_b = User \<and> 0 < userId member_b \<and> role admin = Admin \<and>
   TicketController_searchTickets scenario_db (Some member_b) (Some ''PRINTER'')
     = Response 200 (Some []) ''Search completed successfully'' \<and>
   TicketController_searchTickets scenario_db (Some admin) (Some ''PRINTER'')
     = Response 200 (Some [scenario_ticket]) ''Search completed successfully'' \<and>
   [] = filter (\<lambda>t. user_id t = userId member_b) [scenario_ticket]"
proof -
  have h: "role member_b = User" "0 < userId member_b" "role admin = Admin"
    "userId member_b = 13"
    by (simp_all add: member_b_def admin_def)
  have m: "TicketController_searchTickets scenario_db (Some member_b) (Some ''PRINTER'')
     = Response 200 (Some []) ''Search completed successfully''"
    by (simp add: TicketController_searchTickets_def h scenario_search)
  have a: "TicketController_searchTickets scenario_db (Some admin) (Some ''PRINTER'')
     = Response 200 (Some [scenario_ticket]) ''Search completed successfully''"
    by (simp add: TicketController_searchTickets_def h scenario_search)
  from search_is_ownership_scoped [OF m h(1,2)] h(3) a
  have "[] = filter (\<lambda>t. user_id t = userId member_b) [scenario_ticket]"
    by auto
  with h m a show ?thesis by simp
qed

end
